theory Spec2Isabelle
  imports Main
begin

section \<open>JavaScript values, Datastore keys and plain objects\<close>

text \<open>
  A Datastore key is a path (kinds and identifiers in turn, ancestors first) and an
  optional namespace. A path element is a string (a kind, or a key name), a number, or
  the Datastore integer wrapper that \<open>ds.int(value)\<close> builds, which keeps the decimal
  string it was given.
\<close>

datatype path_elem = PStr string | PNum int | PInt string

record ds_key =
  key_namespace :: "string option"
  key_path :: "path_elem list"

text \<open>
  The values the modelled functions inspect. An object is the list of its own enumerable
  string-keyed properties in enumeration order, every name at most once
  (\<open>wf_obj\<close>). Numbers are integers here: no modelled function does arithmetic on an
  entity's numbers. The symbol-keyed property that carries an entity's key is kept beside
  the record (field \<open>entityKey\<close> of an entity), not inside it.
\<close>

datatype jsval =
    JUndefined
  | JNull
  | JBool bool
  | JNum int
  | JStr string
  | JKey ds_key
  | JArr "jsval list"
  | JObj "(string \<times> jsval) list"

type_synonym obj = "(string \<times> jsval) list"

definition wf_obj :: "obj \<Rightarrow> bool" where
  "wf_obj fs = distinct (map fst fs)"

text \<open>\<open>Object.keys(o)\<close>, \<open>o[k]\<close>, \<open>delete o[k]\<close> and \<open>o[k] = v\<close>.\<close>

definition obj_keys :: "obj \<Rightarrow> string list" where
  "obj_keys fs = map fst fs"

definition obj_get :: "obj \<Rightarrow> string \<Rightarrow> jsval" where
  "obj_get fs k = (case map_of fs k of None \<Rightarrow> JUndefined | Some v \<Rightarrow> v)"

definition obj_has :: "obj \<Rightarrow> string \<Rightarrow> bool" where
  "obj_has fs k = (map_of fs k \<noteq> None)"

definition obj_delete :: "string \<Rightarrow> obj \<Rightarrow> obj" where
  "obj_delete k fs = filter (\<lambda>kv. fst kv \<noteq> k) fs"

definition obj_set :: "string \<Rightarrow> jsval \<Rightarrow> obj \<Rightarrow> obj" where
  "obj_set k v fs =
     (if obj_has fs k then map (\<lambda>kv. if fst kv = k then (k, v) else kv) fs
      else fs @ [(k, v)])"

text \<open>
  The string-keyed members of \<open>Object.prototype\<close>, which every plain object inherits:
  built-in functions, and \<open>__proto__\<close>, which reads the prototype itself.
\<close>

definition object_prototype_names :: "string list" where
  "object_prototype_names =
     [''constructor'', ''__defineGetter__'', ''__defineSetter__'', ''hasOwnProperty'',
      ''__lookupGetter__'', ''__lookupSetter__'', ''isPrototypeOf'', ''propertyIsEnumerable'',
      ''toString'', ''valueOf'', ''__proto__'', ''toLocaleString'']"

text \<open>
  A key is an instance of the \<open>Key\<close> class of the Datastore client. Its constructor
  takes the identifier off a path of even length (\<open>id\<close> for a number or an integer
  wrapper, \<open>name\<close> for a string), then the kind, gives the rest of the path to a parent
  key, and defines \<open>path\<close> as an enumerable getter: the parent's path followed by the
  kind and \<open>name || id\<close>. \<open>key_own_properties\<close> lists the own enumerable properties of
  the instance in the order the constructor creates them; kinds are strings, and the
  \<open>id\<close> of an integer wrapper is its decimal string.
\<close>

fun elem_value :: "path_elem \<Rightarrow> jsval" where
  "elem_value (PStr s) = JStr s"
| "elem_value (PNum n) = JNum n"
| "elem_value (PInt s) = JStr s"

fun elem_name_or_id :: "path_elem \<Rightarrow> jsval" where
  "elem_name_or_id (PStr s) = (if s \<noteq> [] then JStr s else JUndefined)"
| "elem_name_or_id (PNum n) = JNum n"
| "elem_name_or_id (PInt s) = JStr s"

fun key_path_array :: "path_elem list \<Rightarrow> jsval list" where
  "key_path_array [] = []"
| "key_path_array [kind] = [elem_value kind, JUndefined]"
| "key_path_array (kind # ident # rest) =
     elem_value kind # elem_name_or_id ident # key_path_array rest"

definition Key_kind :: "ds_key \<Rightarrow> jsval" where
  "Key_kind k =
     (let path = key_path k;
          kinds = (if even (length path) then butlast path else path)
      in if kinds = [] then JUndefined else elem_value (last kinds))"

definition key_own_properties :: "ds_key \<Rightarrow> (string \<times> jsval) list" where
  "key_own_properties k =
     (let path = key_path k;
          n = length path;
          namespace = (case key_namespace k of Some ns \<Rightarrow> JStr ns | None \<Rightarrow> JUndefined);
          identifier =
            (if even n \<and> path \<noteq> [] then
               (case last path of
                  PStr s \<Rightarrow> [(''name'', JStr s)]
                | PNum i \<Rightarrow> [(''id'', JNum i)]
                | PInt s \<Rightarrow> [(''id'', JStr s)])
             else []);
          kinds = (if even n then butlast path else path);
          rest = butlast kinds;
          parent = (if rest = [] then []
                    else [(''parent'', JKey \<lparr> key_namespace = key_namespace k, key_path = rest \<rparr>)])
      in [(''namespace'', namespace)] @ identifier @ [(''kind'', Key_kind k)] @ parent
         @ [(''path'', JArr (if path = [] then [JUndefined, JUndefined]
                             else key_path_array path))])"

text \<open>
  \<open>is.object(v)\<close> of the \<open>is\<close> package: the value's tag is \<open>[object Object]\<close>. That is
  so for a plain object and for a key, and not for an array, null, undefined or a
  primitive. \<open>own_enumerable\<close> is what \<open>Object.keys\<close> and \<open>Object.assign\<close> see of such a
  value.
\<close>

fun is_object :: "jsval \<Rightarrow> bool" where
  "is_object (JObj fs) = True"
| "is_object (JKey k) = True"
| "is_object v = False"

fun own_enumerable :: "jsval \<Rightarrow> obj" where
  "own_enumerable (JObj fs) = fs"
| "own_enumerable (JKey k) = key_own_properties k"
| "own_enumerable v = []"

section \<open>Schema\<close>

text \<open>
  The part of a schema that \<open>sanitize\<close>, the entity constructor, \<open>save\<close> and the
  serializer read. A path definition's \<open>write\<close> is \<open>None\<close> when the property is not
  set. The options \<open>explicitOnly\<close>, \<open>keyType\<close> and \<open>excludeLargeProperties\<close> are
  \<open>None\<close> when they are not set. A schema built with Joi holds
  the Joi schema in \<open>_joi\<close>; Joi is an external package, so the model takes what the
  code uses of it: the function from a record to \<open>_joi.validate(record).value\<close>, and
  whether \<open>options.joi.options.allowUnknown\<close> is truthy.
\<close>

record path_def =
  pd_write :: "bool option"

record joi_schema =
  joi_value :: "obj \<Rightarrow> obj"
  joi_allowUnknown :: bool

record schema =
  s_paths :: "string \<rightharpoonup> path_def"
  s_joi :: "joi_schema option"
  s_explicitOnly :: "bool option"
  s_keyType :: "string option"
  s_validateBeforeSave :: bool
  s_excludeLargeProperties :: "bool option"

section \<open>sanitize\<close>

text \<open>
  \<open>sanitize(data, schema, options = { disabled: [] })\<close> of the model module. The loop
  body is \<open>sanitize_step\<close>: it runs once for every key of \<open>data\<close>, on the copy
  \<open>sanitized\<close>. The copy is the record of the own enumerable properties of \<open>data\<close>, or
  Joi's value for them.
\<close>

record sanitize_options =
  so_disabled :: "string list"

definition default_sanitize_options :: sanitize_options where
  "default_sanitize_options = \<lparr> so_disabled = [] \<rparr>"

definition isSchemaExplicitOnly :: "schema \<Rightarrow> bool" where
  "isSchemaExplicitOnly sch =
     (case s_joi sch of
        Some j \<Rightarrow> \<not> joi_allowUnknown j
      | None \<Rightarrow> s_explicitOnly sch \<noteq> Some False)"

definition isWriteDisabled :: "sanitize_options \<Rightarrow> bool" where
  "isWriteDisabled opts = (''write'' \<in> set (so_disabled opts))"

definition schemaHasProperty :: "schema \<Rightarrow> string \<Rightarrow> bool" where
  "schemaHasProperty sch k = (s_paths sch k \<noteq> None)"

definition isPropWritable :: "schema \<Rightarrow> string \<Rightarrow> bool" where
  "isPropWritable sch k =
     (case s_paths sch k of
        Some pd \<Rightarrow> pd_write pd \<noteq> Some False
      | None \<Rightarrow> True)"

definition sanitize_strips :: "schema \<Rightarrow> sanitize_options \<Rightarrow> string \<Rightarrow> bool" where
  "sanitize_strips sch opts k =
     ((isSchemaExplicitOnly sch \<and> \<not> schemaHasProperty sch k)
      \<or> (\<not> isPropWritable sch k \<and> \<not> isWriteDisabled opts))"

definition sanitize_step :: "schema \<Rightarrow> sanitize_options \<Rightarrow> string \<Rightarrow> obj \<Rightarrow> obj" where
  "sanitize_step sch opts k sanitized =
     (if sanitize_strips sch opts k then obj_delete k sanitized
      else if obj_get sanitized k = JStr ''null'' then obj_set k JNull sanitized
      else sanitized)"

definition sanitize :: "jsval \<Rightarrow> schema \<Rightarrow> sanitize_options \<Rightarrow> jsval" where
  "sanitize data sch opts =
     (if \<not> is_object data then JNull
      else
        (let fs = own_enumerable data;
             sanitized = (case s_joi sch of Some j \<Rightarrow> joi_value j fs | None \<Rightarrow> fs)
         in JObj (fold (sanitize_step sch opts) (obj_keys fs) sanitized)))"

text \<open>The static method \<open>Model.sanitize(data)\<close>: \<open>sanitize(data, this.schema)\<close>.\<close>

definition Model_sanitize :: "schema \<Rightarrow> jsval \<Rightarrow> jsval" where
  "Model_sanitize sch data = sanitize data sch default_sanitize_options"


subsection \<open>What sanitize computes on a schema without Joi\<close>

text \<open>
  For a well-formed object and a schema without Joi, the loop keeps exactly the fields
  that \<open>sanitize_strips\<close> does not strip, in their order, and turns the string
  \<open>null\<close> into the value null: \<open>sanitize_field\<close> is what happens to one field.
\<close>


definition sanitize_field :: "schema \<Rightarrow> sanitize_options \<Rightarrow> string \<times> jsval \<Rightarrow> (string \<times> jsval) option" where
  "sanitize_field sch opts kv =
     (if sanitize_strips sch opts (fst kv) then None
      else Some (fst kv, if snd kv = JStr ''null'' then JNull else snd kv))"

lemma map_of_distinct_entry:
  "distinct (map fst fs) \<Longrightarrow> (k, v) \<in> set fs \<Longrightarrow> map_of fs k = Some v"
  by simp

lemma sanitize_step_map_filter:
  assumes "distinct (map fst acc)"
  shows "sanitize_step sch opts k acc =
         List.map_filter (\<lambda>kv. if fst kv = k then sanitize_field sch opts kv else Some kv) acc"
proof (cases "sanitize_strips sch opts k")
  case True
  have "filter (\<lambda>kv. fst kv \<noteq> k) acc =
        List.map_filter (\<lambda>kv. if fst kv = k then None else Some kv) acc"
    by (induction acc) (auto simp: List.map_filter_simps)
  moreover have "List.map_filter (\<lambda>kv. if fst kv = k then sanitize_field sch opts kv else Some kv) acc
      = List.map_filter (\<lambda>kv. if fst kv = k then None else Some kv) acc"
    using True by (intro arg_cong2[where f = List.map_filter] ext) (auto simp: sanitize_field_def)
  ultimately show ?thesis using True by (simp add: sanitize_step_def obj_delete_def)
next
  case False
  show ?thesis
  proof (cases "map_of acc k")
    case None
    then have nk: "\<forall>kv \<in> set acc. fst kv \<noteq> k"
      by (metis map_of_eq_None_iff image_eqI)
    then have "List.map_filter (\<lambda>kv. if fst kv = k then sanitize_field sch opts kv else Some kv) acc = acc"
      by (induction acc) (auto simp: List.map_filter_simps)
    then show ?thesis using None False by (simp add: sanitize_step_def obj_get_def)
  next
    case (Some v)
    have gen: "distinct (map fst xs) \<Longrightarrow> map_of xs k = Some v \<Longrightarrow>
       List.map_filter (\<lambda>kv. if fst kv = k then sanitize_field sch opts kv else Some kv) xs
       = (if v = JStr ''null'' then map (\<lambda>kv. if fst kv = k then (k, JNull) else kv) xs else xs)" for xs
    proof (induction xs)
      case Nil then show ?case by simp
    next
      case (Cons a xs)
      show ?case
      proof (cases "fst a = k")
        case True
        then have v: "snd a = v" using Cons.prems(2) by (cases a) auto
        have "k \<notin> fst ` set xs" using Cons.prems(1) True by auto
        then have nk: "\<forall>kv \<in> set xs. fst kv \<noteq> k" by auto
        then have 1: "List.map_filter (\<lambda>kv. if fst kv = k then sanitize_field sch opts kv else Some kv) xs = xs"
          by (induction xs) (auto simp: List.map_filter_simps)
        have 2: "map (\<lambda>kv. if fst kv = k then (k, JNull) else kv) xs = xs"
          using nk by (induction xs) auto
        show ?thesis using True v 1 2 False
          by (cases a) (auto simp: List.map_filter_simps sanitize_field_def)
      next
        case F: False
        then have "map_of xs k = Some v" using Cons.prems(2) by (cases a) auto
        with Cons have "List.map_filter (\<lambda>kv. if fst kv = k then sanitize_field sch opts kv else Some kv) xs
       = (if v = JStr ''null'' then map (\<lambda>kv. if fst kv = k then (k, JNull) else kv) xs else xs)" by simp
        then show ?thesis using F by (auto simp: List.map_filter_simps)
      qed
    qed
    show ?thesis using gen[OF assms Some] Some False
      by (auto simp: sanitize_step_def obj_get_def obj_set_def obj_has_def)
  qed
qed


lemma map_filter_keys_distinct:
  assumes "distinct (map fst acc)" and "\<And>kv y. f kv = Some y \<Longrightarrow> fst y = fst kv"
  shows "distinct (map fst (List.map_filter f acc))"
  using assms(1)
proof (induction acc)
  case Nil then show ?case by simp
next
  case (Cons a acc)
  have sub: "fst ` set (List.map_filter f acc) \<subseteq> fst ` set acc"
    using assms(2) by (force simp: List.map_filter_def)
  show ?case
  proof (cases "f a")
    case None then show ?thesis using Cons by simp
  next
    case (Some y)
    then have "fst y = fst a" using assms(2) by blast
    then show ?thesis using Some Cons sub by auto
  qed
qed

lemma sanitize_field_fst: "sanitize_field sch opts kv = Some y \<Longrightarrow> fst y = fst kv"
  by (auto simp: sanitize_field_def split: if_splits)

lemma sanitize_field_twice:
  "sanitize_field sch opts kv = Some y \<Longrightarrow> sanitize_field sch opts y = Some y"
  by (auto simp: sanitize_field_def split: if_splits)

lemma sanitize_fold_map_filter:
  assumes "distinct (map fst acc)"
  shows "fold (sanitize_step sch opts) ks acc =
         List.map_filter (\<lambda>kv. if fst kv \<in> set ks then sanitize_field sch opts kv else Some kv) acc"
  using assms
proof (induction ks arbitrary: acc)
  case Nil
  then show ?case by (simp add: List.map_filter_def)
next
  case (Cons k ks)
  let ?g = "\<lambda>kv. if fst kv = k then sanitize_field sch opts kv else Some kv"
  let ?h = "\<lambda>kv. if fst kv \<in> set ks then sanitize_field sch opts kv else Some kv"
  have d: "distinct (map fst (List.map_filter ?g acc))"
    by (rule map_filter_keys_distinct[OF Cons.prems]) (auto split: if_splits dest: sanitize_field_fst)
  have "fold (sanitize_step sch opts) (k # ks) acc = fold (sanitize_step sch opts) ks (List.map_filter ?g acc)"
    by (simp add: sanitize_step_map_filter[OF Cons.prems])
  also have "\<dots> = List.map_filter ?h (List.map_filter ?g acc)"
    by (rule Cons.IH[OF d])
  also have "\<dots> = List.map_filter (\<lambda>kv. if fst kv \<in> set (k # ks) then sanitize_field sch opts kv else Some kv) acc"
  proof (induction acc)
    case Nil then show ?case by simp
  next
    case (Cons a acc)
    show ?case
    proof (cases "?g a")
      case None
      then show ?thesis using Cons by (auto split: if_splits option.splits)
    next
      case (Some y)
      then show ?thesis using Cons
        by (auto split: if_splits option.splits simp: sanitize_field_twice dest: sanitize_field_fst)
    qed
  qed
  finally show ?case .
qed

lemma sanitize_plain:
  assumes "s_joi sch = None" and "wf_obj fs"
  shows "sanitize (JObj fs) sch opts = JObj (List.map_filter (sanitize_field sch opts) fs)"
proof -
  have "List.map_filter (\<lambda>kv. if fst kv \<in> set (obj_keys fs) then sanitize_field sch opts kv else Some kv) fs
        = List.map_filter (sanitize_field sch opts) fs"
    unfolding List.map_filter_def obj_keys_def
    by (intro arg_cong2[where f = map] filter_cong map_cong refl) auto
  then show ?thesis
    using assms sanitize_fold_map_filter[of fs sch opts "obj_keys fs"]
    by (simp add: sanitize_def wf_obj_def)
qed


lemma sanitize_field_wf:
  "wf_obj fs \<Longrightarrow> wf_obj (List.map_filter (sanitize_field sch opts) fs)"
  unfolding wf_obj_def
  by (rule map_filter_keys_distinct) (auto dest: sanitize_field_fst)

lemma sanitize_field_idem:
  "List.map_filter (sanitize_field sch opts) (List.map_filter (sanitize_field sch opts) fs)
   = List.map_filter (sanitize_field sch opts) fs"
  by (induction fs) (auto split: option.splits simp: sanitize_field_twice)

lemma obj_get_map_filter:
  assumes "wf_obj fs" and "(k, v) \<in> set (List.map_filter (sanitize_field sch opts) fs)"
  shows "\<not> sanitize_strips sch opts k"
    and "obj_get (List.map_filter (sanitize_field sch opts) fs) k = v"
    and "v = (if obj_get fs k = JStr ''null'' then JNull else obj_get fs k)"
proof -
  from assms(2) obtain kv where kv: "kv \<in> set fs" "sanitize_field sch opts kv = Some (k, v)"
    by (auto simp: List.map_filter_def)
  then show "\<not> sanitize_strips sch opts k"
    by (auto simp: sanitize_field_def split: if_splits)
  have "wf_obj (List.map_filter (sanitize_field sch opts) fs)"
    by (rule sanitize_field_wf[OF assms(1)])
  then show "obj_get (List.map_filter (sanitize_field sch opts) fs) k = v"
    using assms(2) by (simp add: obj_get_def wf_obj_def)
  from kv have "fst kv = k" "v = (if snd kv = JStr ''null'' then JNull else snd kv)"
    by (auto simp: sanitize_field_def split: if_splits)
  moreover have "map_of fs (fst kv) = Some (snd kv)"
    using kv(1) assms(1) by (intro map_of_is_SomeI) (simp_all add: wf_obj_def)
  then have "obj_get fs k = snd kv"
    using \<open>fst kv = k\<close> by (simp add: obj_get_def)
  ultimately show "v = (if obj_get fs k = JStr ''null'' then JNull else obj_get fs k)"
    by simp
qed

text \<open>
  C7. For a schema with \<open>explicitOnly\<close> true and without Joi, and an object record,
  every key of \<open>sanitize(record)\<close> is a declared path of the schema; a kept field
  whose value is the string \<open>null\<close> holds null afterwards, every other kept field
  keeps its value, and no field of the output holds the string \<open>null\<close>.
\<close>

theorem sanitize_explicitOnly_keys:
  assumes "s_joi sch = None" and "s_explicitOnly sch = Some True" and "wf_obj fs"
  shows "\<exists>out. sanitize (JObj fs) sch opts = JObj out
           \<and> set (obj_keys out) \<subseteq> dom (s_paths sch)
           \<and> (\<forall>k \<in> set (obj_keys out).
                 obj_get out k = (if obj_get fs k = JStr ''null'' then JNull else obj_get fs k))
           \<and> (\<forall>k. obj_get out k \<noteq> JStr ''null'')"
proof -
  let ?out = "List.map_filter (sanitize_field sch opts) fs"
  have eq: "sanitize (JObj fs) sch opts = JObj ?out"
    by (rule sanitize_plain[OF assms(1,3)])
  have ex: "isSchemaExplicitOnly sch"
    using assms(1,2) by (simp add: isSchemaExplicitOnly_def)
  have keys: "set (obj_keys ?out) \<subseteq> dom (s_paths sch)"
  proof
    fix k assume "k \<in> set (obj_keys ?out)"
    then obtain v where "(k, v) \<in> set ?out" by (auto simp: obj_keys_def)
    then have "\<not> sanitize_strips sch opts k"
      by (rule obj_get_map_filter(1)[OF assms(3)])
    with ex show "k \<in> dom (s_paths sch)"
      by (auto simp: sanitize_strips_def schemaHasProperty_def)
  qed
  have vals: "\<forall>k \<in> set (obj_keys ?out).
       obj_get ?out k = (if obj_get fs k = JStr ''null'' then JNull else obj_get fs k)"
  proof
    fix k assume "k \<in> set (obj_keys ?out)"
    then obtain v where v: "(k, v) \<in> set ?out" by (auto simp: obj_keys_def)
    show "obj_get ?out k = (if obj_get fs k = JStr ''null'' then JNull else obj_get fs k)"
      using obj_get_map_filter(2,3)[OF assms(3) v] by simp
  qed
  have nonull: "\<forall>k. obj_get ?out k \<noteq> JStr ''null''"
  proof
    fix k
    show "obj_get ?out k \<noteq> JStr ''null''"
    proof (cases "map_of ?out k")
      case None then show ?thesis by (simp add: obj_get_def)
    next
      case (Some v)
      then have v: "(k, v) \<in> set ?out" by (rule map_of_SomeD)
      show ?thesis using obj_get_map_filter(2,3)[OF assms(3) v] by (auto split: if_splits)
    qed
  qed
  show ?thesis using eq keys vals nonull by blast
qed

text \<open>
  C8. \<open>sanitize\<close> is idempotent on object records for a schema without Joi.
  With a Joi schema it is not: the loop runs over the keys of the input, not of Joi's
  value, so a default that Joi adds for a property that is not writable survives the
  first pass and is stripped by the second (the example with \<open>joi_user_schema\<close>
  below).
\<close>

theorem sanitize_idempotent_plain:
  assumes "s_joi sch = None" and "wf_obj fs"
  shows "sanitize (sanitize (JObj fs) sch opts) sch opts = sanitize (JObj fs) sch opts"
proof -
  let ?out = "List.map_filter (sanitize_field sch opts) fs"
  have 1: "sanitize (JObj fs) sch opts = JObj ?out"
    by (rule sanitize_plain[OF assms])
  have 2: "sanitize (JObj ?out) sch opts = JObj (List.map_filter (sanitize_field sch opts) ?out)"
    by (rule sanitize_plain[OF assms(1) sanitize_field_wf[OF assms(2)]])
  show ?thesis by (simp only: 1 2 sanitize_field_idem)
qed

text \<open>
  C9. \<open>Model.sanitize\<close> returns null for every input that \<open>is.object\<close> rejects:
  null, undefined, a string, a number, a boolean, an array.
\<close>

theorem Model_sanitize_non_object:
  "\<not> is_object data \<Longrightarrow> Model_sanitize sch data = JNull"
  by (simp add: Model_sanitize_def sanitize_def)


subsection \<open>Example schemas and records\<close>

text \<open>
  \<open>user_schema\<close> is an explicit-only schema with a read-only property;
  \<open>joi_user_schema\<close> is the same schema built with Joi, whose validation fills in a
  default for \<open>createdOn\<close> when the record has none (\<open>joi_default_createdOn\<close>).
\<close>

definition user_schema :: schema where
  "user_schema =
     \<lparr> s_paths = [''name'' \<mapsto> \<lparr> pd_write = None \<rparr>,
                  ''createdOn'' \<mapsto> \<lparr> pd_write = Some False \<rparr>],
       s_joi = None, s_explicitOnly = Some True, s_keyType = None,
       s_validateBeforeSave = True, s_excludeLargeProperties = None \<rparr>"

definition user_record :: obj where
  "user_record = [(''name'', JStr ''null''), (''role'', JStr ''admin''), (''createdOn'', JNum 7)]"

definition joi_default_createdOn :: "obj \<Rightarrow> obj" where
  "joi_default_createdOn fs =
     (if obj_has fs ''createdOn'' then fs else fs @ [(''createdOn'', JNum 0)])"

definition joi_user_schema :: schema where
  "joi_user_schema =
     \<lparr> s_paths = [''name'' \<mapsto> \<lparr> pd_write = None \<rparr>,
                  ''createdOn'' \<mapsto> \<lparr> pd_write = Some False \<rparr>],
       s_joi = Some \<lparr> joi_value = joi_default_createdOn, joi_allowUnknown = False \<rparr>,
       s_explicitOnly = None, s_keyType = None, s_validateBeforeSave = True,
       s_excludeLargeProperties = None \<rparr>"

lemmas sanitize_eval =
  sanitize_def sanitize_step_def sanitize_strips_def isSchemaExplicitOnly_def
  isWriteDisabled_def schemaHasProperty_def isPropWritable_def default_sanitize_options_def
  obj_keys_def obj_get_def obj_set_def obj_has_def obj_delete_def wf_obj_def

theorem sanitize_explicitOnly_keys_witness:
  "s_joi user_schema = None \<and> s_explicitOnly user_schema = Some True \<and> wf_obj user_record
   \<and> sanitize (JObj user_record) user_schema default_sanitize_options = JObj [(''name'', JNull)]
   \<and> (\<exists>out. sanitize (JObj user_record) user_schema default_sanitize_options = JObj out
           \<and> set (obj_keys out) \<subseteq> dom (s_paths user_schema))"
  using sanitize_explicitOnly_keys [of user_schema user_record default_sanitize_options]
  by (simp add: user_schema_def user_record_def sanitize_eval)

theorem sanitize_idempotent_joi_counterexample:
  "sanitize (sanitize (JObj []) joi_user_schema default_sanitize_options)
      joi_user_schema default_sanitize_options
   \<noteq> sanitize (JObj []) joi_user_schema default_sanitize_options"
  by (simp add: joi_user_schema_def joi_default_createdOn_def sanitize_eval)

theorem sanitize_idempotent_plain_witness:
  "s_joi user_schema = None \<and> wf_obj user_record
   \<and> sanitize (sanitize (JObj user_record) user_schema default_sanitize_options)
        user_schema default_sanitize_options
     = sanitize (JObj user_record) user_schema default_sanitize_options"
  using sanitize_idempotent_plain [of user_schema user_record default_sanitize_options]
  by (simp add: user_schema_def user_record_def wf_obj_def)

theorem Model_sanitize_non_object_witness:
  "\<not> is_object JNull \<and> Model_sanitize user_schema JNull = JNull
   \<and> \<not> is_object (JArr [JNum 1]) \<and> Model_sanitize user_schema (JArr [JNum 1]) = JNull"
  using Model_sanitize_non_object [of JNull user_schema]
        Model_sanitize_non_object [of "JArr [JNum 1]" user_schema]
  by simp

section \<open>Errors\<close>

text \<open>
  What a function throws or a promise rejects with: a plain \<open>Error\<close> with its message,
  a \<open>GstoreError\<close> with its code and message, a \<open>TypeError\<close> of the runtime, a
  failure that the backing store reports, or a response object of the store that the
  code throws as it is.
\<close>

datatype error =
    Error string
  | GstoreError string string
  | TypeError string
  | StoreFailure string
  | ApiResponse string

section \<open>Entities and their keys\<close>

text \<open>
  The entity constructor takes its key from the \<open>key\<close> argument or derives it with
  \<open>createKey\<close> and \<open>parseId\<close>. \<open>parseId\<close> asks the global \<open>isFinite\<close>
  whether a string id is a finite number once converted: that conversion is the
  runtime's (string to double), so the model takes it as the field \<open>rt_isFinite\<close> of
  the runtime, and \<open>parseInt(string, 10)\<close> as the field \<open>rt_parseInt\<close>. \<open>ds.key\<close> is the store's key constructor: the model keeps the path and
  the namespace it is given (\<open>ds_key_of\<close>); a path that is the kind alone is the path
  with that one element.
\<close>

record js_runtime =
  rt_isFinite :: "string \<Rightarrow> bool"
  rt_parseInt :: "string \<Rightarrow> int"

fun js_truthy :: "jsval \<Rightarrow> bool" where
  "js_truthy JUndefined = False"
| "js_truthy JNull = False"
| "js_truthy (JBool b) = b"
| "js_truthy (JNum n) = (n \<noteq> 0)"
| "js_truthy (JStr s) = (s \<noteq> [])"
| "js_truthy v = True"

definition parseId :: "js_runtime \<Rightarrow> schema \<Rightarrow> jsval \<Rightarrow> error + path_elem" where
  "parseId rt sch ident =
     (case ident of
        JStr s \<Rightarrow>
          (if s_keyType sch = Some ''name'' then Inr (PStr s)
           else if s_keyType sch = Some ''id'' then Inr (PInt s)
           else if rt_isFinite rt s then Inr (PInt s) else Inr (PStr s))
      | JNum n \<Rightarrow> Inr (PNum n)
      | _ \<Rightarrow> Inl (Error ''id must be a string or a number''))"

definition ds_key_of :: "string option \<Rightarrow> path_elem list \<Rightarrow> ds_key" where
  "ds_key_of namespace path =
     (case namespace of
        Some ns \<Rightarrow> (if ns \<noteq> [] then \<lparr> key_namespace = Some ns, key_path = path \<rparr>
                   else \<lparr> key_namespace = None, key_path = path \<rparr>)
      | None \<Rightarrow> \<lparr> key_namespace = None, key_path = path \<rparr>)"

definition createKey ::
  "js_runtime \<Rightarrow> string \<Rightarrow> schema \<Rightarrow> jsval \<Rightarrow> path_elem list option \<Rightarrow> string option
     \<Rightarrow> error + ds_key" where
  "createKey rt kind sch ident ancestors namespace =
     (let anc = (case ancestors of Some a \<Rightarrow> a | None \<Rightarrow> [])
      in if js_truthy ident then
           (case parseId rt sch ident of
              Inl e \<Rightarrow> Inl e
            | Inr pid \<Rightarrow> Inr (ds_key_of namespace (anc @ [PStr kind, pid])))
         else Inr (ds_key_of namespace (anc @ [PStr kind])))"

definition Entity_entityKey ::
  "js_runtime \<Rightarrow> string \<Rightarrow> schema \<Rightarrow> jsval \<Rightarrow> path_elem list option \<Rightarrow> string option
     \<Rightarrow> jsval \<Rightarrow> error + ds_key" where
  "Entity_entityKey rt kind sch ident ancestors namespace key =
     (if js_truthy key then
        (case key of
           JKey k \<Rightarrow> Inr k
         | _ \<Rightarrow> Inl (Error ''Entity Key must be a Datastore Key''))
      else createKey rt kind sch ident ancestors namespace)"

lemma key_path_ds_key_of: "key_path (ds_key_of ns path) = path"
  by (simp add: ds_key_of_def split: option.splits)

text \<open>
  C6. For a non-empty string id that the runtime's \<open>isFinite\<close> accepts (a string that
  looks like an integer, such as \<open>123\<close>), the entity constructor derives a key whose
  last path element is the store's integer form of the string when the schema sets no
  \<open>keyType\<close>, and the unchanged string when \<open>keyType\<close> is \<open>name\<close>.
\<close>

theorem entityKey_of_integer_string:
  assumes "s \<noteq> []" and "rt_isFinite rt s"
  shows "(s_keyType sch = None \<longrightarrow>
            (\<exists>k. Entity_entityKey rt kind sch (JStr s) anc ns JUndefined = Inr k
                 \<and> key_path k = (case anc of Some a \<Rightarrow> a | None \<Rightarrow> []) @ [PStr kind, PInt s]))
       \<and> (s_keyType sch = Some ''name'' \<longrightarrow>
            (\<exists>k. Entity_entityKey rt kind sch (JStr s) anc ns JUndefined = Inr k
                 \<and> key_path k = (case anc of Some a \<Rightarrow> a | None \<Rightarrow> []) @ [PStr kind, PStr s]))"
  using assms
  by (simp add: Entity_entityKey_def createKey_def parseId_def key_path_ds_key_of)

text \<open>
  A runtime for the examples: \<open>decimal_isFinite\<close> accepts the strings of one to fifteen
  decimal digits, all of which the global \<open>isFinite\<close> accepts, and \<open>decimal_value\<close> is
  the number such a string denotes, as \<open>parseInt\<close> reads it.
\<close>

definition is_digit :: "char \<Rightarrow> bool" where
  "is_digit c = (c \<in> set ''0123456789'')"

definition decimal_isFinite :: "string \<Rightarrow> bool" where
  "decimal_isFinite s = (s \<noteq> [] \<and> list_all is_digit s \<and> length s \<le> 15)"

definition digit_value :: "char \<Rightarrow> int" where
  "digit_value c = int (of_char c) - 48"

definition decimal_value :: "string \<Rightarrow> int" where
  "decimal_value s = foldl (\<lambda>acc c. 10 * acc + digit_value c) 0 s"

text \<open>The decimal digits of a number, as \<open>toString\<close> writes them.\<close>

fun nat_digits :: "nat \<Rightarrow> string" where
  "nat_digits n =
     (if n < 10 then [''0123456789'' ! n]
      else nat_digits (n div 10) @ [''0123456789'' ! (n mod 10)])"

declare nat_digits.simps [simp del]

definition node_runtime :: js_runtime where
  "node_runtime = \<lparr> rt_isFinite = decimal_isFinite, rt_parseInt = decimal_value \<rparr>"

theorem entityKey_of_integer_string_witness:
  "''123'' \<noteq> [] \<and> rt_isFinite node_runtime ''123''
   \<and> s_keyType user_schema = None
   \<and> Entity_entityKey node_runtime ''User'' user_schema (JStr ''123'') None None JUndefined
       = Inr \<lparr> key_namespace = None, key_path = [PStr ''User'', PInt ''123''] \<rparr>
   \<and> s_keyType (user_schema \<lparr> s_keyType := Some ''name'' \<rparr>) = Some ''name''
   \<and> Entity_entityKey node_runtime ''User'' (user_schema \<lparr> s_keyType := Some ''name'' \<rparr>)
         (JStr ''123'') None None JUndefined
       = Inr \<lparr> key_namespace = None, key_path = [PStr ''User'', PStr ''123''] \<rparr>"
  using entityKey_of_integer_string [of "''123''" node_runtime user_schema "''User''" None None]
        entityKey_of_integer_string [of "''123''" node_runtime
          "user_schema \<lparr> s_keyType := Some ''name'' \<rparr>" "''User''" None None]
  by (simp add: node_runtime_def decimal_isFinite_def is_digit_def user_schema_def
        Entity_entityKey_def createKey_def parseId_def ds_key_of_def)

section \<open>The serializer: toDatastore\<close>

text \<open>
  An entity as the serializer reads it. The entity constructor builds
  \<open>excludeFromIndexes\<close> as an array of paths (\<open>this.excludeFromIndexes = []\<close>, then
  \<open>push\<close>); the serializer, and the typing of its TypeScript port, read it as an object
  that maps a property to the paths excluded for it. Both shapes are values of
  \<open>exclusions\<close>.
\<close>

datatype exclusions =
    ExcludeArray "string list"
  | ExcludeMap "(string \<times> string list) list"

record entity =
  entityKind :: string
  entityKey :: ds_key
  entityData :: obj
  excludeFromIndexes :: exclusions
  e_schema :: schema

record toDatastore_options =
  td_method :: "string option"

record datastore_format =
  df_key :: ds_key
  df_data :: obj
  df_excludeLargeProperties :: "bool option"
  df_excludeFromIndexes :: "string list option"
  df_method :: "string option"

text \<open>
  The read \<open>entity.excludeFromIndexes[key]\<close> follows the prototype chain: of the object to
  \<open>Object.prototype\<close>, of the array to \<open>Array.prototype\<close> and then
  \<open>Object.prototype\<close>. The names of the string-keyed methods of \<open>Array.prototype\<close>
  depend on the version of the runtime, and are a parameter (\<open>array_methods\<close>). On the
  array, a canonical index below the length reads an element and \<open>length\<close> reads the
  length; on the object, an own property reads its paths.
\<close>

datatype member =
    MUndefined
  | MPaths "string list"
  | MString string
  | MNumber nat
  | MFunction
  | MObjectPrototype
  | MArrayPrototype

definition array_index :: "string \<Rightarrow> nat option" where
  "array_index s =
     (if s \<noteq> [] \<and> list_all is_digit s \<and> (s = ''0'' \<or> hd s \<noteq> CHR ''0'')
         \<and> decimal_value s < 4294967295
      then Some (nat (decimal_value s)) else None)"

definition inherited_member :: "string list \<Rightarrow> bool \<Rightarrow> string \<Rightarrow> member" where
  "inherited_member array_methods is_array k =
     (if is_array \<and> k \<in> set array_methods then MFunction
      else if k \<in> set object_prototype_names then
        (if k = ''__proto__'' then (if is_array then MArrayPrototype else MObjectPrototype)
         else MFunction)
      else MUndefined)"

definition exclusions_member :: "string list \<Rightarrow> exclusions \<Rightarrow> string \<Rightarrow> member" where
  "exclusions_member ps ex k =
     (case ex of
        ExcludeArray xs \<Rightarrow>
          (case array_index k of
             Some i \<Rightarrow> (if i < length xs then MString (xs ! i) else inherited_member ps True k)
           | None \<Rightarrow> (if k = ''length'' then MNumber (length xs)
                      else inherited_member ps True k))
      | ExcludeMap m \<Rightarrow>
          (case map_of m k of
             Some paths \<Rightarrow> MPaths paths
           | None \<Rightarrow> inherited_member ps False k))"

text \<open>
  The spread \<open>...arr\<close> inside \<open>[...acc, ...arr]\<close>: the elements of an array, the
  characters of a string, nothing for \<open>Array.prototype\<close> (an empty array), and a
  \<open>TypeError\<close> for a value that is not iterable.
\<close>

definition spread :: "member \<Rightarrow> error + string list" where
  "spread m =
     (case m of
        MPaths xs \<Rightarrow> Inr xs
      | MString s \<Rightarrow> Inr (map (\<lambda>c. [c]) s)
      | MArrayPrototype \<Rightarrow> Inr []
      | _ \<Rightarrow> Inl (TypeError ''arr is not iterable''))"

text \<open>
  The \<open>reduce\<close> over \<open>Object.entries(entity.entityData)\<close> that builds \<open>data\<close> by
  \<open>acc[key] = value\<close> (an assignment to \<open>__proto__\<close> creates no property), and
  \<open>getExcludeFromIndexes\<close>: filter, map, filter, reduce, as the source chains them.
\<close>

definition toDatastore_data :: "obj \<Rightarrow> obj" where
  "toDatastore_data ed =
     fold (\<lambda>kv acc. if snd kv \<noteq> JUndefined
                     then (if fst kv = ''__proto__'' then acc else obj_set (fst kv) (snd kv) acc)
                     else acc) ed []"

definition getExcludeFromIndexes :: "string list \<Rightarrow> obj \<Rightarrow> entity \<Rightarrow> error + string list" where
  "getExcludeFromIndexes ps data e =
     foldl (\<lambda>acc arr. case acc of
                         Inl err \<Rightarrow> Inl err
                       | Inr xs \<Rightarrow> (case spread arr of
                                     Inl err \<Rightarrow> Inl err
                                   | Inr ys \<Rightarrow> Inr (xs @ ys)))
       (Inr [])
       (filter (\<lambda>v. v \<noteq> MUndefined)
         (map (\<lambda>kv. exclusions_member ps (excludeFromIndexes e) (fst kv))
           (filter (\<lambda>kv. snd kv \<noteq> JNull) data)))"

definition toDatastore ::
  "string list \<Rightarrow> entity \<Rightarrow> toDatastore_options \<Rightarrow> error + datastore_format" where
  "toDatastore ps e opts =
     (let data = toDatastore_data (entityData e)
      in case getExcludeFromIndexes ps data e of
           Inl err \<Rightarrow> Inl err
         | Inr ex \<Rightarrow>
             Inr \<lparr> df_key = entityKey e,
                   df_data = data,
                   df_excludeLargeProperties = s_excludeLargeProperties (e_schema e),
                   df_excludeFromIndexes = (if length ex > 0 then Some ex else None),
                   df_method = (case td_method opts of
                                  Some m \<Rightarrow> (if m \<noteq> [] then Some m else None)
                                | None \<Rightarrow> None) \<rparr>)"

subsection \<open>The record that toDatastore returns\<close>

lemma obj_set_fresh: "k \<notin> fst ` set acc \<Longrightarrow> obj_set k v acc = acc @ [(k, v)]"
  by (simp add: obj_set_def obj_has_def map_of_eq_None_iff)

definition kept :: "string \<times> jsval \<Rightarrow> bool" where
  "kept kv = (snd kv \<noteq> JUndefined \<and> fst kv \<noteq> ''__proto__'')"

lemma toDatastore_data_fold:
  "distinct (map fst (acc @ ed)) \<Longrightarrow>
   fold (\<lambda>kv a. if snd kv \<noteq> JUndefined
                 then (if fst kv = ''__proto__'' then a else obj_set (fst kv) (snd kv) a)
                 else a) ed acc
   = acc @ filter kept ed"
proof (induction ed arbitrary: acc)
  case Nil
  then show ?case by simp
next
  case (Cons kv ed)
  have fresh: "fst kv \<notin> fst ` set acc" using Cons.prems by auto
  show ?case
  proof (cases "kept kv")
    case False
    have "distinct (map fst (acc @ ed))" using Cons.prems by auto
    then show ?thesis using False Cons.IH[of acc] by (auto simp: kept_def)
  next
    case True
    have "distinct (map fst ((acc @ [kv]) @ ed))" using Cons.prems by auto
    then have "fold (\<lambda>kv a. if snd kv \<noteq> JUndefined
                 then (if fst kv = ''__proto__'' then a else obj_set (fst kv) (snd kv) a)
                 else a) ed (acc @ [kv])
          = (acc @ [kv]) @ filter kept ed"
      by (rule Cons.IH)
    moreover have "snd kv \<noteq> JUndefined" and "fst kv \<noteq> ''__proto__''"
      using True by (simp_all add: kept_def)
    ultimately show ?thesis using True obj_set_fresh[OF fresh, of "snd kv"] by simp
  qed
qed

lemma toDatastore_data_filter:
  "wf_obj ed \<Longrightarrow> toDatastore_data ed = filter kept ed"
  using toDatastore_data_fold[of "[]" ed] by (simp add: toDatastore_data_def wf_obj_def)

text \<open>
  When \<open>toDatastore\<close> returns, the data of the wire record holds the entries of
  \<open>entityData\<close> whose value is not undefined, in their order, null-valued entries
  included (an entry named \<open>__proto__\<close> apart).
\<close>

lemma toDatastore_returns_data:
  assumes "wf_obj (entityData e)" and "toDatastore ps e opts = Inr w"
  shows "df_data w = filter kept (entityData e)"
  using assms(2) toDatastore_data_filter[OF assms(1)]
  by (auto simp: toDatastore_def Let_def split: sum.splits)

subsection \<open>Entities whose property names meet the prototype chain\<close>

text \<open>The string-keyed methods of \<open>Array.prototype\<close> in a Node runtime.\<close>

definition node_array_methods :: "string list" where
  "node_array_methods =
     [''constructor'', ''concat'', ''copyWithin'', ''fill'', ''find'', ''findIndex'',
      ''lastIndexOf'', ''pop'', ''push'', ''reverse'', ''shift'', ''unshift'', ''slice'',
      ''sort'', ''splice'', ''includes'', ''indexOf'', ''join'', ''keys'', ''entries'',
      ''values'', ''forEach'', ''filter'', ''flat'', ''flatMap'', ''map'', ''every'',
      ''some'', ''reduce'', ''reduceRight'', ''toLocaleString'', ''toString'']"

definition user_entity :: entity where
  "user_entity =
     \<lparr> entityKind = ''User'',
       entityKey = \<lparr> key_namespace = None, key_path = [PStr ''User'', PInt ''123''] \<rparr>,
       entityData = [(''name'', JStr ''John''), (''bio'', JNull), (''age'', JUndefined),
                     (''address'', JObj [(''city'', JStr ''Paris'')])],
       excludeFromIndexes = ExcludeMap [(''bio'', [''bio'']), (''address'', [''address.city''])],
       e_schema = user_schema \<rparr>"

lemmas toDatastore_eval =
  toDatastore_def toDatastore_data_def getExcludeFromIndexes_def exclusions_member_def
  inherited_member_def spread_def array_index_def is_digit_def node_array_methods_def object_prototype_names_def
  obj_set_def obj_has_def

lemma toDatastore_user_entity:
  "toDatastore node_array_methods user_entity \<lparr> td_method = None \<rparr>
   = Inr \<lparr> df_key = \<lparr> key_namespace = None, key_path = [PStr ''User'', PInt ''123''] \<rparr>,
           df_data = [(''name'', JStr ''John''), (''bio'', JNull),
                      (''address'', JObj [(''city'', JStr ''Paris'')])],
           df_excludeLargeProperties = None,
           df_excludeFromIndexes = Some [''address.city''],
           df_method = None \<rparr>"
  by (simp add: toDatastore_eval user_entity_def user_schema_def)

lemma array_index_length: "array_index ''length'' = None"
  by (simp add: array_index_def is_digit_def)

lemma array_index_toString: "array_index ''toString'' = None"
  by (simp add: array_index_def is_digit_def)

lemma array_index_name: "array_index ''name'' = None"
  by (simp add: array_index_def is_digit_def)

lemma member_length:
  "exclusions_member ms (ExcludeArray xs) ''length'' = MNumber (length xs)"
  by (simp add: exclusions_member_def array_index_length)

lemma member_toString_array:
  "exclusions_member node_array_methods (ExcludeArray xs) ''toString'' = MFunction"
  by (simp add: exclusions_member_def array_index_toString inherited_member_def
        node_array_methods_def)

lemma member_toString_map:
  "map_of m ''toString'' = None \<Longrightarrow> exclusions_member ms (ExcludeMap m) ''toString'' = MFunction"
  by (simp add: exclusions_member_def inherited_member_def object_prototype_names_def)

lemma member_name_array:
  "exclusions_member node_array_methods (ExcludeArray []) ''name'' = MUndefined"
  by (simp add: exclusions_member_def array_index_name inherited_member_def
        node_array_methods_def object_prototype_names_def)

lemma data_track:
  "toDatastore_data [(''name'', JStr ''Track''), (''length'', JNum 10)]
   = [(''name'', JStr ''Track''), (''length'', JNum 10)]"
  by (simp add: toDatastore_data_def obj_set_def obj_has_def)

lemma data_toString:
  "toDatastore_data [(''toString'', JStr ''x'')] = [(''toString'', JStr ''x'')]"
  by (simp add: toDatastore_data_def obj_set_def obj_has_def)

text \<open>
  C10. \<open>toDatastore\<close> returns no wire record for an entity that has a property named
  \<open>length\<close> when \<open>excludeFromIndexes\<close> is the array that the entity constructor builds,
  or a property named \<open>toString\<close> with either shape of \<open>excludeFromIndexes\<close>: the read
  \<open>entity.excludeFromIndexes[key]\<close> finds the array's length, or the inherited method,
  which the filter on undefined lets through, and the spread throws a \<open>TypeError\<close>. The
  field, whose value is not undefined, is not kept in any saved data.
\<close>

theorem toDatastore_throws_on_inherited_names:
  "toDatastore node_array_methods
     (user_entity \<lparr> entityData := [(''name'', JStr ''Track''), (''length'', JNum 10)],
                    excludeFromIndexes := ExcludeArray [] \<rparr>)
     \<lparr> td_method = None \<rparr>
   = Inl (TypeError ''arr is not iterable'')
   \<and> toDatastore node_array_methods
       (user_entity \<lparr> entityData := [(''toString'', JStr ''x'')],
                      excludeFromIndexes := ExcludeArray [] \<rparr>)
       \<lparr> td_method = None \<rparr>
     = Inl (TypeError ''arr is not iterable'')
   \<and> toDatastore node_array_methods
       (user_entity \<lparr> entityData := [(''toString'', JStr ''x'')] \<rparr>)
       \<lparr> td_method = None \<rparr>
     = Inl (TypeError ''arr is not iterable'')"
  by (simp add: toDatastore_def getExcludeFromIndexes_def spread_def data_track data_toString
        member_length member_toString_array member_toString_map member_name_array
        user_entity_def)


section \<open>deleteAll\<close>

text \<open>
  The backing store, as \<open>deleteAll\<close> sees it: the keys of the entities it holds. The key
  query of the kind (with the namespace and the ancestor given to \<open>deleteAll\<close>) selects the
  keys that \<open>da_matches\<close> accepts, at most \<open>limitDataPerQuery\<close> of them; \<open>ds.delete\<close>
  removes the keys it is given. The calls are recorded in order: a query run, a
  \<open>ds.delete\<close> with its keys, a clearing of the cache with its \<open>clearQueries\<close> flag, and
  the timer between two batches.
\<close>

record deleteAll_env =
  da_matches :: "ds_key \<Rightarrow> bool"
  da_has_pre_delete_hooks :: bool
  da_has_cache :: bool

datatype ds_call =
    RunQuery
  | DsDelete "ds_key list"
  | ClearCache "ds_key list" bool
  | Timeout nat

definition maxEntitiesPerBatch :: nat where
  "maxEntitiesPerBatch = 500"

definition timeoutBetweenBatches :: nat where
  "timeoutBetweenBatches = 500"

definition limitDataPerQuery :: nat where
  "limitDataPerQuery = 100000"

definition run_query :: "deleteAll_env \<Rightarrow> ds_key list \<Rightarrow> ds_key list" where
  "run_query env st = take limitDataPerQuery (filter (da_matches env) st)"

definition ds_delete :: "ds_key list \<Rightarrow> ds_key list \<Rightarrow> ds_key list" where
  "ds_delete keys st = filter (\<lambda>k. k \<notin> set keys) st"

text \<open>\<open>xs.slice(a, b)\<close> for \<open>0 \<le> a \<le> b\<close>.\<close>

definition js_slice :: "'a list \<Rightarrow> nat \<Rightarrow> nat \<Rightarrow> 'a list" where
  "js_slice xs a b = take (b - a) (drop a xs)"

text \<open>
  \<open>Model.delete(null, null, null, null, key, options)\<close> outside a transaction:
  \<open>ds.delete(key)\<close>, then \<open>clearCache(key, options.clearQueries)\<close> when the cache is on.
\<close>

definition clearCache_calls :: "deleteAll_env \<Rightarrow> ds_key list \<Rightarrow> bool \<Rightarrow> ds_call list" where
  "clearCache_calls env keys clearQueries =
     (if da_has_cache env then [ClearCache keys clearQueries] else [])"

definition Model_delete_key ::
  "deleteAll_env \<Rightarrow> ds_key list \<Rightarrow> bool \<Rightarrow> ds_key list \<Rightarrow> ds_call list \<times> ds_key list" where
  "Model_delete_key env keys clearQueries st =
     (DsDelete keys # clearCache_calls env keys clearQueries, ds_delete keys st)"

text \<open>
  One batch. With a pre hook on \<open>delete\<close> the entities are deleted one by one, chained
  (\<open>chainPromise\<close>, which passes no options, so \<open>clearQueries\<close> takes its default
  true); otherwise all keys of the batch go to one \<open>delete\<close>, and the queries are cleared
  on the first batch only.
\<close>

definition chainPromise ::
  "deleteAll_env \<Rightarrow> ds_key \<Rightarrow> ds_call list \<times> ds_key list \<Rightarrow> ds_call list \<times> ds_key list" where
  "chainPromise env k acc =
     (let (ev, st) = acc; (ev', st') = Model_delete_key env [k] True st in (ev @ ev', st'))"

definition delete_batch ::
  "deleteAll_env \<Rightarrow> ds_key list \<Rightarrow> nat \<Rightarrow> ds_key list \<Rightarrow> ds_call list \<times> ds_key list" where
  "delete_batch env entitiesToDelete currentBatch st =
     (if da_has_pre_delete_hooks env then fold (chainPromise env) entitiesToDelete ([], st)
      else Model_delete_key env entitiesToDelete (currentBatch = 0) st)"

text \<open>
  \<open>deleteEntities(batch)\<close> followed by \<open>onEntitiesDeleted\<close>, up to the point where the
  query is run again.
\<close>

function deleteEntities ::
  "deleteAll_env \<Rightarrow> ds_key list \<Rightarrow> nat \<Rightarrow> nat \<Rightarrow> ds_key list \<Rightarrow> ds_call list \<times> ds_key list" where
  "deleteEntities env entities totalBatches batch st =
     (let indexStart = batch * maxEntitiesPerBatch;
          indexEnd = indexStart + maxEntitiesPerBatch;
          entitiesToDelete = js_slice entities indexStart indexEnd;
          r = delete_batch env entitiesToDelete batch st;
          currentBatch = batch + 1
      in if currentBatch < totalBatches then
           (let r2 = deleteEntities env entities totalBatches currentBatch (snd r)
            in (fst r @ [Timeout timeoutBetweenBatches] @ fst r2, snd r2))
         else r)"
  by pat_completeness auto
termination
  by (relation "measure (\<lambda>(env, entities, totalBatches, batch, st). totalBatches - batch)") auto

declare deleteEntities.simps [simp del]

lemma snd_fold_chainPromise:
  "snd (fold (chainPromise env) ks acc) = ds_delete ks (snd acc)"
proof (induction ks arbitrary: acc)
  case Nil
  then show ?case by (simp add: ds_delete_def)
next
  case (Cons k ks)
  have "snd (chainPromise env k acc) = ds_delete [k] (snd acc)"
    by (cases acc) (simp add: chainPromise_def Model_delete_key_def)
  then show ?case using Cons.IH[of "chainPromise env k acc"]
    by (auto simp: ds_delete_def intro: filter_cong)
qed

lemma snd_delete_batch: "snd (delete_batch env ks b st) = ds_delete ks st"
  by (simp add: delete_batch_def snd_fold_chainPromise Model_delete_key_def)

lemma snd_deleteEntities:
  "snd (deleteEntities env es tb b st) =
     (let st' = ds_delete (js_slice es (b * maxEntitiesPerBatch)
                             (b * maxEntitiesPerBatch + maxEntitiesPerBatch)) st
      in if b + 1 < tb then snd (deleteEntities env es tb (b + 1) st') else st')"
  by (subst deleteEntities.simps) (simp add: Let_def snd_delete_batch)

lemma deleteEntities_sublist:
  "\<exists>P. snd (deleteEntities env es tb b st) = filter P st"
proof (induction env es tb b st rule: deleteEntities.induct)
  case (1 env entities totalBatches batch st)
  let ?ks = "js_slice entities (batch * maxEntitiesPerBatch) (batch * maxEntitiesPerBatch + maxEntitiesPerBatch)"
  show ?case
  proof (cases "batch + 1 < totalBatches")
    case True
    from "1.IH"[OF refl refl refl refl refl True]
    obtain P where "snd (deleteEntities env entities totalBatches (batch + 1)
                      (snd (delete_batch env ?ks batch st)))
                    = filter P (snd (delete_batch env ?ks batch st))" by blast
    then have "snd (deleteEntities env entities totalBatches batch st) = filter P (ds_delete ?ks st)"
      using True by (subst snd_deleteEntities) (simp add: Let_def snd_delete_batch)
    then show ?thesis unfolding ds_delete_def filter_filter by blast
  next
    case False
    then have "snd (deleteEntities env entities totalBatches batch st) = ds_delete ?ks st"
      by (subst snd_deleteEntities) (simp add: Let_def)
    then show ?thesis unfolding ds_delete_def by blast
  qed
qed

lemma deleteEntities_first_batch:
  "set (snd (deleteEntities env es tb b st)) \<subseteq>
   set st - set (js_slice es (b * maxEntitiesPerBatch) (b * maxEntitiesPerBatch + maxEntitiesPerBatch))"
proof -
  let ?ks = "js_slice es (b * maxEntitiesPerBatch) (b * maxEntitiesPerBatch + maxEntitiesPerBatch)"
  show ?thesis
  proof (cases "b + 1 < tb")
    case True
    obtain P where "snd (deleteEntities env es tb (b + 1) (ds_delete ?ks st)) = filter P (ds_delete ?ks st)"
      using deleteEntities_sublist by blast
    then have "snd (deleteEntities env es tb b st) = filter P (ds_delete ?ks st)"
      using True by (subst snd_deleteEntities) (simp add: Let_def)
    then show ?thesis by (auto simp: ds_delete_def)
  next
    case False
    then have "snd (deleteEntities env es tb b st) = ds_delete ?ks st"
      by (subst snd_deleteEntities) (simp add: Let_def)
    then show ?thesis by (auto simp: ds_delete_def)
  qed
qed

lemma deleteEntities_decreases:
  assumes "run_query env st \<noteq> []"
  shows "length (filter (da_matches env) (snd (deleteEntities env (run_query env st) tb 0 st)))
         < length (filter (da_matches env) st)"
proof -
  let ?es = "run_query env st"
  let ?st' = "snd (deleteEntities env ?es tb 0 st)"
  obtain P where P: "?st' = filter P st" using deleteEntities_sublist by blast
  obtain k ks where es: "?es = k # ks" using assms by (cases ?es) auto
  have kin: "k \<in> set (filter (da_matches env) st)"
    using es unfolding run_query_def by (metis in_set_takeD list.set_intros(1))
  have "k \<in> set (js_slice ?es (0 * maxEntitiesPerBatch) (0 * maxEntitiesPerBatch + maxEntitiesPerBatch))"
    using es by (simp add: js_slice_def maxEntitiesPerBatch_def)
  then have "k \<notin> set ?st'" using deleteEntities_first_batch[of env ?es tb 0 st] by blast
  then have nP: "\<not> P k" using P kin by auto
  have "filter (da_matches env) ?st' = filter P (filter (da_matches env) st)"
    unfolding P filter_filter by (rule filter_cong) auto
  moreover have "length (filter P (filter (da_matches env) st)) < length (filter (da_matches env) st)"
    using kin nP by (intro length_filter_less[of k]) auto
  ultimately show ?thesis by simp
qed

text \<open>
  \<open>onEntities\<close>: the keys the query returned. None: done. Otherwise the batches, then
  the query again. \<open>Math.ceil(n / 500)\<close> is \<open>(n + 499) div 500\<close>.
\<close>

function onEntities :: "deleteAll_env \<Rightarrow> ds_key list \<Rightarrow> ds_call list \<times> ds_key list" where
  "onEntities env st =
     (let entities = run_query env st
      in if length entities = 0 then ([], st)
         else
           (let totalBatches = (length entities + (maxEntitiesPerBatch - 1)) div maxEntitiesPerBatch;
                r = deleteEntities env entities totalBatches 0 st;
                r2 = onEntities env (snd r)
            in (fst r @ [RunQuery] @ fst r2, snd r2)))"
  by pat_completeness auto
termination
proof (relation "measure (\<lambda>(env, st). length (filter (da_matches env) st))")
  show "wf (measure (\<lambda>(env, st). length (filter (da_matches env) st)))" by simp
next
  fix env :: deleteAll_env and st :: "ds_key list" and x xa xb
  assume "x = run_query env st" "length x \<noteq> 0"
    "xa = (length x + (maxEntitiesPerBatch - 1)) div maxEntitiesPerBatch"
    "xb = deleteEntities env x xa 0 st"
  then show "((env, snd xb), env, st) \<in> measure (\<lambda>(env, st). length (filter (da_matches env) st))"
    using deleteEntities_decreases[of env st xa] by simp
qed

declare onEntities.simps [simp del]

definition deleteAll :: "deleteAll_env \<Rightarrow> ds_key list \<Rightarrow> ds_call list \<times> ds_key list" where
  "deleteAll env st = (let r = onEntities env st in (RunQuery # fst r, snd r))"


text \<open>The sizes of the deletes issued, in order.\<close>

fun batch_sizes :: "ds_call list \<Rightarrow> nat list" where
  "batch_sizes [] = []"
| "batch_sizes (DsDelete ks # evs) = length ks # batch_sizes evs"
| "batch_sizes (ev # evs) = batch_sizes evs"

lemma batch_sizes_append: "batch_sizes (xs @ ys) = batch_sizes xs @ batch_sizes ys"
  by (induction xs rule: batch_sizes.induct) auto

lemma batch_sizes_clearCache: "batch_sizes (clearCache_calls env ks q) = []"
  by (simp add: clearCache_calls_def)

lemma onEntities_empty: "run_query env st = [] \<Longrightarrow> onEntities env st = ([], st)"
  by (subst onEntities.simps) simp

text \<open>
  C3. Against a kind holding exactly 1200 entities, with no pre hook on \<open>delete\<close>,
  \<open>deleteAll\<close> runs the query, issues three deletes one after the other, of the first
  500 keys, the next 500 and the last 200, with the timer between two batches, then runs
  the query again and stops, since it returns no key; no entity of the kind is left.
\<close>

theorem deleteAll_1200_entities:
  assumes "length (filter (da_matches env) st) = 1200"
    and "\<not> da_has_pre_delete_hooks env"
  shows "deleteAll env st =
           ([RunQuery, DsDelete (take 500 (filter (da_matches env) st))]
              @ clearCache_calls env (take 500 (filter (da_matches env) st)) True
              @ [Timeout 500, DsDelete (take 500 (drop 500 (filter (da_matches env) st)))]
              @ clearCache_calls env (take 500 (drop 500 (filter (da_matches env) st))) False
              @ [Timeout 500, DsDelete (drop 1000 (filter (da_matches env) st))]
              @ clearCache_calls env (drop 1000 (filter (da_matches env) st)) False
              @ [RunQuery],
            filter (\<lambda>k. \<not> da_matches env k) st)
       \<and> batch_sizes (fst (deleteAll env st)) = [500, 500, 200]"
proof -
  let ?es = "filter (da_matches env) st"
  let ?b1 = "take 500 ?es" and ?b2 = "take 500 (drop 500 ?es)" and ?b3 = "drop 1000 ?es"
  have len: "length ?es = 1200" by (rule assms(1))
  have q: "run_query env st = ?es"
    using len by (simp add: run_query_def limitDataPerQuery_def)
  have ne: "?es \<noteq> []"
    using len by auto
  have s0: "js_slice ?es 0 500 = ?b1"
    by (simp add: js_slice_def)
  have s1: "js_slice ?es 500 1000 = ?b2"
    by (simp add: js_slice_def)
  have s2: "js_slice ?es 1000 1500 = ?b3"
    using len by (simp add: js_slice_def)
  have db: "delete_batch env ks b s = Model_delete_key env ks (b = 0) s" for ks b s
    using assms(2) by (simp add: delete_batch_def)
  have d2: "deleteEntities env ?es 3 (Suc (Suc 0)) s = (DsDelete ?b3 # clearCache_calls env ?b3 False, ds_delete ?b3 s)" for s
    by (subst deleteEntities.simps) (simp add: Let_def maxEntitiesPerBatch_def s2 db Model_delete_key_def)
  have d1: "deleteEntities env ?es 3 (Suc 0) s =
      (DsDelete ?b2 # clearCache_calls env ?b2 False @ [Timeout 500]
         @ DsDelete ?b3 # clearCache_calls env ?b3 False,
       ds_delete ?b3 (ds_delete ?b2 s))" for s
    by (subst deleteEntities.simps)
       (simp add: Let_def maxEntitiesPerBatch_def s1 db Model_delete_key_def d2 timeoutBetweenBatches_def)
  have d0: "deleteEntities env ?es 3 0 s =
      (DsDelete ?b1 # clearCache_calls env ?b1 True @ [Timeout 500]
         @ DsDelete ?b2 # clearCache_calls env ?b2 False @ [Timeout 500]
         @ DsDelete ?b3 # clearCache_calls env ?b3 False,
       ds_delete ?b3 (ds_delete ?b2 (ds_delete ?b1 s)))" for s
    by (subst deleteEntities.simps)
       (simp add: Let_def maxEntitiesPerBatch_def s0 db Model_delete_key_def d1 timeoutBetweenBatches_def)
  have "drop 1000 ?es = drop 500 (drop 500 ?es)" by simp
  then have parts: "?es = ?b1 @ ?b2 @ ?b3"
    by (simp only: append_take_drop_id)
  have "set ?b1 \<union> set ?b2 \<union> set ?b3 = set ?es"
    by (subst (4) parts) auto
  then have fin: "ds_delete ?b3 (ds_delete ?b2 (ds_delete ?b1 st)) = filter (\<lambda>k. \<not> da_matches env k) st"
    unfolding ds_delete_def filter_filter by (intro filter_cong refl) auto
  have q2: "run_query env (filter (\<lambda>k. \<not> da_matches env k) st) = []"
    by (simp add: run_query_def)
  have "onEntities env st =
      (DsDelete ?b1 # clearCache_calls env ?b1 True @ [Timeout 500]
         @ DsDelete ?b2 # clearCache_calls env ?b2 False @ [Timeout 500]
         @ DsDelete ?b3 # clearCache_calls env ?b3 False @ [RunQuery],
       filter (\<lambda>k. \<not> da_matches env k) st)"
    using len ne
    by (subst onEntities.simps)
       (simp add: q maxEntitiesPerBatch_def d0 fin onEntities_empty[OF q2] Let_def)
  then show ?thesis
    using len by (simp add: deleteAll_def batch_sizes_append batch_sizes_clearCache)
qed

text \<open>
  An example store: 1200 entities of kind \<open>User\<close> and one of another kind, with a query
  that selects the keys of the kind.
\<close>

definition key_kind :: "ds_key \<Rightarrow> path_elem option" where
  "key_kind k =
     (case rev (key_path k) of
        ident # kind # rest \<Rightarrow> Some kind
      | _ \<Rightarrow> None)"

definition user_key :: "nat \<Rightarrow> ds_key" where
  "user_key i = \<lparr> key_namespace = None, key_path = [PStr ''User'', PNum (int i)] \<rparr>"

definition address_key :: ds_key where
  "address_key = \<lparr> key_namespace = None, key_path = [PStr ''Address'', PNum 1] \<rparr>"

definition user_store :: "ds_key list" where
  "user_store = map user_key [0..<600] @ [address_key] @ map user_key [600..<1200]"

definition user_deleteAll_env :: deleteAll_env where
  "user_deleteAll_env =
     \<lparr> da_matches = (\<lambda>k. key_kind k = Some (PStr ''User'')),
       da_has_pre_delete_hooks = False, da_has_cache = True \<rparr>"

theorem deleteAll_1200_entities_witness:
  "length (filter (da_matches user_deleteAll_env) user_store) = 1200
   \<and> \<not> da_has_pre_delete_hooks user_deleteAll_env
   \<and> batch_sizes (fst (deleteAll user_deleteAll_env user_store)) = [500, 500, 200]
   \<and> snd (deleteAll user_deleteAll_env user_store) = [address_key]"
proof -
  have m: "da_matches user_deleteAll_env (user_key i)" for i
    by (simp add: user_deleteAll_env_def user_key_def key_kind_def)
  have a: "\<not> da_matches user_deleteAll_env address_key"
    by (simp add: user_deleteAll_env_def address_key_def key_kind_def)
  have fm: "filter (da_matches user_deleteAll_env) (map user_key xs) = map user_key xs" for xs
    by (induction xs) (simp_all add: m)
  have fn: "filter (\<lambda>k. \<not> da_matches user_deleteAll_env k) (map user_key xs) = []" for xs
    by (induction xs) (simp_all add: m)
  have f: "filter (da_matches user_deleteAll_env) user_store
           = map user_key [0..<600] @ map user_key [600..<1200]"
    unfolding user_store_def filter_append fm using a by simp
  have "length (map user_key [0..<600] @ map user_key [600..<1200]) = 1200"
    unfolding length_append length_map length_upt by simp
  then have len: "length (filter (da_matches user_deleteAll_env) user_store) = 1200"
    by (simp only: f)
  have h: "\<not> da_has_pre_delete_hooks user_deleteAll_env"
    by (simp add: user_deleteAll_env_def)
  have r: "filter (\<lambda>k. \<not> da_matches user_deleteAll_env k) user_store = [address_key]"
    unfolding user_store_def filter_append fn using a by simp
  note t = deleteAll_1200_entities [OF len h]
  have b: "batch_sizes (fst (deleteAll user_deleteAll_env user_store)) = [500, 500, 200]"
    by (rule t [THEN conjunct2])
  have s: "snd (deleteAll user_deleteAll_env user_store) = [address_key]"
    by (simp only: t [THEN conjunct1] snd_conv r)
  show ?thesis
    using len h b s by blast
qed

section \<open>populate\<close>

subsection \<open>Reading and writing properties by name\<close>

text \<open>
  \<open>populate\<close> reads and writes properties whose names come from the reference paths,
  with \<open>get\<close> and \<open>set\<close> of lodash and with \<open>data[field]\<close>. The records of the model
  hold the own properties of plain objects. A read that finds no own property continues
  in \<open>Object.prototype\<close>, whose members are built-in functions (\<open>__proto__\<close> reads
  the prototype itself); a path can also run through an array, a key, a string or a
  number, which have properties of their own kind, and \<open>set\<close> assigns into such a
  value where it finds one, or creates an array where the next key is an index. None
  of these results is a value of the model: the outcome of such a step is \<open>Beyond\<close>, and
  the model does not follow the call further. \<open>Returns\<close> and \<open>Throws\<close> are the outcomes
  that the model follows: of a function, what it returns or throws; of a promise, what
  it resolves or rejects with.
\<close>

datatype 'a outcome = Returns 'a | Throws error | Beyond

text \<open>
  \<open>o[k]\<close> on a plain object, and \<open>o[k] = v\<close>: an assignment to \<open>__proto__\<close> that is not
  an own property sets the prototype.
\<close>

definition obj_read :: "obj \<Rightarrow> string \<Rightarrow> jsval outcome" where
  "obj_read fs k =
     (if obj_has fs k then Returns (obj_get fs k)
      else if k \<in> set object_prototype_names then Beyond
      else Returns JUndefined)"

definition obj_assign :: "string \<Rightarrow> jsval \<Rightarrow> obj \<Rightarrow> obj outcome" where
  "obj_assign k v fs =
     (if k = ''__proto__'' \<and> \<not> obj_has fs k then Beyond else Returns (obj_set k v fs))"

subsection \<open>lodash get and set\<close>

text \<open>
  \<open>get(object, path)\<close> and \<open>set(object, path, value)\<close> of lodash. A path string that has
  no dot, or that names a property of the object as it stands, is one key; otherwise it
  is split at its dots (\<open>castPath\<close>; a path with a bracket is not followed). \<open>get\<close>
  reads the keys in turn, and yields undefined when it meets null or undefined on the
  way. \<open>set\<close> walks the keys, keeps an object that it finds on the way, puts a new
  object where the value on the way is null, undefined or a primitive, and assigns at
  the last key. \<open>isIndex\<close> is lodash's test for an array index: where the key after a
  missing value is one, \<open>set\<close> creates an array.
\<close>

fun split_dots :: "string \<Rightarrow> string list" where
  "split_dots [] = [[]]"
| "split_dots (c # cs) =
     (if c = CHR ''.'' then [] # split_dots cs
      else (case split_dots cs of
              s # ss \<Rightarrow> (c # s) # ss
            | [] \<Rightarrow> [[c]]))"

definition castPath :: "string \<Rightarrow> obj \<Rightarrow> string list outcome" where
  "castPath path fs =
     (if CHR ''['' \<in> set path \<or> CHR '']'' \<in> set path then Beyond
      else if CHR ''.'' \<notin> set path \<or> obj_has fs path then Returns [path]
      else Returns (split_dots path))"

definition isIndex :: "string \<Rightarrow> bool" where
  "isIndex s =
     (s \<noteq> [] \<and> list_all is_digit s \<and> (s = ''0'' \<or> hd s \<noteq> CHR ''0'')
      \<and> decimal_value s < 9007199254740991)"

fun baseGet :: "jsval \<Rightarrow> string list \<Rightarrow> jsval outcome" where
  "baseGet v [] = Returns v"
| "baseGet v (k # ks) =
     (case v of
        JUndefined \<Rightarrow> Returns JUndefined
      | JNull \<Rightarrow> Returns JUndefined
      | JObj fs \<Rightarrow>
          (case obj_read fs k of
             Returns w \<Rightarrow> baseGet w ks
           | Throws e \<Rightarrow> Throws e
           | Beyond \<Rightarrow> Beyond)
      | _ \<Rightarrow> Beyond)"

definition lodash_get :: "obj \<Rightarrow> string \<Rightarrow> jsval outcome" where
  "lodash_get fs path =
     (case castPath path fs of
        Returns ks \<Rightarrow> baseGet (JObj fs) ks
      | Throws e \<Rightarrow> Throws e
      | Beyond \<Rightarrow> Beyond)"

fun baseSet :: "obj \<Rightarrow> string list \<Rightarrow> jsval \<Rightarrow> obj outcome" where
  "baseSet fs [] v = Returns fs"
| "baseSet fs [k] v = obj_assign k v fs"
| "baseSet fs (k # k' # ks) v =
     (case obj_read fs k of
        Returns (JObj gs) \<Rightarrow>
          (case baseSet gs (k' # ks) v of
             Returns gs' \<Rightarrow> obj_assign k (JObj gs') fs
           | Throws e \<Rightarrow> Throws e
           | Beyond \<Rightarrow> Beyond)
      | Returns (JArr xs) \<Rightarrow> Beyond
      | Returns (JKey key) \<Rightarrow> Beyond
      | Returns w \<Rightarrow>
          (if isIndex k' then Beyond
           else
             (case baseSet [] (k' # ks) v of
                Returns gs' \<Rightarrow> obj_assign k (JObj gs') fs
              | Throws e \<Rightarrow> Throws e
              | Beyond \<Rightarrow> Beyond))
      | Throws e \<Rightarrow> Throws e
      | Beyond \<Rightarrow> Beyond)"

definition lodash_set :: "obj \<Rightarrow> string \<Rightarrow> jsval \<Rightarrow> obj outcome" where
  "lodash_set fs path v =
     (case castPath path fs of
        Returns ks \<Rightarrow> baseSet fs ks v
      | Throws e \<Rightarrow> Throws e
      | Beyond \<Rightarrow> Beyond)"

subsection \<open>References, options and the backing store\<close>

record populate_ref =
  ref_path :: string
  ref_select :: "string list"

datatype transaction_arg = NoTransaction | Transaction | NotATransaction

text \<open>
  The data loader passed in the options, with the values it has cached so far under
  their cache keys, or none (\<open>populate\<close> then creates one), or an object that is not a
  \<open>DataLoader\<close>.
\<close>

datatype dataloader_arg =
    NoDataLoader
  | DataLoader "string \<rightharpoonup> jsval"
  | NotADataLoader

record populate_options =
  po_transaction :: transaction_arg
  po_dataloader :: dataloader_arg

text \<open>
  What \<open>populate\<close> calls: the records the store holds; \<open>keyToString\<close> of the cache
  adapter, which is not among the sources and is taken as it is (\<open>pe_keyToString\<close>);
  and the models registered on the gstore instance (\<open>pe_model\<close>): \<open>gstore.model(kind)\<close>
  finds the model registered for the kind, and the model maps a fetched record to the
  \<open>plain()\<close> of the entity it builds from it. The cache collaborator is off.
\<close>

record populate_env =
  pe_entities :: "ds_key \<rightharpoonup> obj"
  pe_keyToString :: "ds_key \<Rightarrow> string"
  pe_model :: "string \<rightharpoonup> (obj \<Rightarrow> obj)"

text \<open>
  The state of the reads: the cache of the data loader, by cache key, and the log of the
  reads that reached the store, each with the keys it asked for.
\<close>

record fetcher =
  f_cache :: "string \<rightharpoonup> jsval"
  f_log :: "ds_key list list"

definition store_value :: "populate_env \<Rightarrow> ds_key \<Rightarrow> jsval" where
  "store_value env k = (case pe_entities env k of Some r \<Rightarrow> JObj r | None \<Rightarrow> JNull)"

text \<open>
  Modelled from the spec: the data loader (\<open>createDataLoader\<close> and the loader it builds
  are not among the sources). It is a load-and-cache-per-key map keyed by the stringified
  key: identical keys requested by different paths or entities collapse into a single
  store fetch, and each requester still receives its own result. \<open>loadMany_level\<close> takes
  the key lists that the entities of one level ask for together: of the keys whose
  string is not cached yet, the first of each string is fetched (\<open>first_keys\<close>), all
  in one read; every request is then answered from the cache, null for a key the store
  does not hold.
\<close>

definition first_keys :: "(ds_key \<Rightarrow> string) \<Rightarrow> ds_key list \<Rightarrow> ds_key list" where
  "first_keys str ks =
     fold (\<lambda>k acc. if str k \<in> str ` set acc then acc else acc @ [k]) ks []"

definition loadMany_level ::
  "populate_env \<Rightarrow> ds_key list list \<Rightarrow> fetcher \<Rightarrow> jsval list list \<times> fetcher" where
  "loadMany_level env keyss f =
     (let str = pe_keyToString env;
          missing = first_keys str (filter (\<lambda>k. f_cache f (str k) = None) (concat keyss));
          cache' = (\<lambda>s. case find (\<lambda>k. str k = s) missing of
                           Some k \<Rightarrow> Some (store_value env k)
                         | None \<Rightarrow> f_cache f s);
          f' = (if missing = [] then f
                else \<lparr> f_cache = cache', f_log = f_log f @ [missing] \<rparr>)
      in (map (map (\<lambda>k. case f_cache f' (str k) of Some v \<Rightarrow> v | None \<Rightarrow> JNull)) keyss, f'))"

text \<open>
  \<open>transaction.get(keys)\<close>: one read of the store with the keys as given; the store
  answers with the records it holds.
\<close>

definition transaction_get ::
  "populate_env \<Rightarrow> ds_key list \<Rightarrow> fetcher \<Rightarrow> jsval list \<times> fetcher" where
  "transaction_get env keys f =
     (List.map_filter (\<lambda>k. map_option JObj (pe_entities env k)) keys,
      f \<lparr> f_log := f_log f @ [keys] \<rparr>)"

subsection \<open>getPopulateMetaForEntity\<close>

record populate_meta =
  pm_entityData :: obj
  pm_keysToFetch :: "ds_key list"
  pm_mapKeyToPropAndSelect :: "string \<rightharpoonup> populate_ref"

definition meta_step ::
  "populate_env \<Rightarrow> populate_ref \<Rightarrow> populate_meta outcome \<Rightarrow> populate_meta outcome" where
  "meta_step env ref acc =
     (case acc of
        Returns m \<Rightarrow>
          (case lodash_get (pm_entityData m) (ref_path ref) of
             Returns key \<Rightarrow>
               (if \<not> js_truthy key then
                  (case lodash_set (pm_entityData m) (ref_path ref) JNull of
                     Returns ed \<Rightarrow> Returns (m \<lparr> pm_entityData := ed \<rparr>)
                   | Throws e \<Rightarrow> Throws e
                   | Beyond \<Rightarrow> Beyond)
                else
                  (case key of
                     JKey k \<Rightarrow>
                       Returns (m \<lparr> pm_mapKeyToPropAndSelect :=
                                      (pm_mapKeyToPropAndSelect m)(pe_keyToString env k \<mapsto> ref),
                                    pm_keysToFetch := pm_keysToFetch m @ [k] \<rparr>)
                   | _ \<Rightarrow>
                       Throws (Error (''[gstore] '' @ ref_path ref
                          @ '' is not a Datastore Key. Reference entity can't be fetched.''))))
           | Throws e \<Rightarrow> Throws e
           | Beyond \<Rightarrow> Beyond)
      | Throws e \<Rightarrow> Throws e
      | Beyond \<Rightarrow> Beyond)"

definition getPopulateMetaForEntity ::
  "populate_env \<Rightarrow> obj \<Rightarrow> populate_ref list \<Rightarrow> populate_meta outcome" where
  "getPopulateMetaForEntity env ed entityRefs =
     fold (meta_step env) entityRefs
       (Returns \<lparr> pm_entityData = ed, pm_keysToFetch = [],
                  pm_mapKeyToPropAndSelect = Map.empty \<rparr>)"

subsection \<open>Merging the fetched records\<close>

text \<open>
  \<open>key.name || key.id\<close> of a key: its last path element when the key is complete.
  \<open>data[field] || null\<close> for every selected field. \<open>gstore.model(key.kind)\<close> throws
  when no model is registered for the kind.
\<close>

definition key_name_or_id :: "ds_key \<Rightarrow> jsval" where
  "key_name_or_id k =
     (if even (length (key_path k)) \<and> key_path k \<noteq> [] then
        (case last (key_path k) of
           PStr s \<Rightarrow> (if s \<noteq> [] then JStr s else JUndefined)
         | PNum n \<Rightarrow> JNum n
         | PInt s \<Rightarrow> JStr s)
      else JUndefined)"

definition select_fields :: "string list \<Rightarrow> obj \<Rightarrow> obj outcome" where
  "select_fields select data =
     fold (\<lambda>field acc.
             case acc of
               Returns a \<Rightarrow>
                 (case obj_read data field of
                    Returns v \<Rightarrow> Returns (obj_set field (if js_truthy v then v else JNull) a)
                  | Throws e \<Rightarrow> Throws e
                  | Beyond \<Rightarrow> Beyond)
             | Throws e \<Rightarrow> Throws e
             | Beyond \<Rightarrow> Beyond)
       select (Returns [])"

definition projection :: "populate_env \<Rightarrow> ds_key \<Rightarrow> populate_ref \<Rightarrow> obj \<Rightarrow> jsval outcome" where
  "projection env key ref data =
     (case Key_kind key of
        JStr kind \<Rightarrow>
          (case pe_model env kind of
             None \<Rightarrow>
               (if kind \<in> set object_prototype_names then Beyond
                else Throws (Error (''Schema '' @ kind @ '' missing'')))
           | Some plain \<Rightarrow>
               (case (if ref_select ref \<noteq> [] \<and> ''*'' \<notin> set (ref_select ref)
                      then select_fields (ref_select ref) data
                      else Returns (plain data)) of
                  Returns json \<Rightarrow> Returns (JObj (obj_set ''id'' (key_name_or_id key) json))
                | Throws e \<Rightarrow> Throws e
                | Beyond \<Rightarrow> Beyond))
      | _ \<Rightarrow> Beyond)"

text \<open>
  \<open>onKeysFetched\<close> writes into \<open>entityData\<close>: the record itself for a plain root, a
  shallow copy of \<open>entity.entityData\<close> for an entity of a model, which is assigned back
  to the entity only when a fetched record is merged. Until then a write reaches the
  entity's own record only through an object that the copy still shares with it.
  \<open>ms_copy\<close> is \<open>entityData\<close>, \<open>ms_own\<close> the entity's own record, \<open>ms_reassigned\<close> the
  top-level properties of the copy that were given a new value, \<open>ms_assigned\<close> whether
  the entity's record is the copy.
\<close>

record merge_state =
  ms_own :: obj
  ms_copy :: obj
  ms_reassigned :: "string list"
  ms_assigned :: bool

fun is_record :: "jsval \<Rightarrow> bool" where
  "is_record (JObj fs) = True"
| "is_record v = False"

definition merge_write :: "string \<Rightarrow> jsval \<Rightarrow> merge_state \<Rightarrow> merge_state outcome" where
  "merge_write path v st =
     (case castPath path (ms_copy st) of
        Returns ks \<Rightarrow>
          (let shared = (case ks of
                           k # k' # rest \<Rightarrow>
                             k \<notin> set (ms_reassigned st) \<and> is_record (obj_get (ms_copy st) k)
                         | _ \<Rightarrow> False);
               keeps = (case ks of
                          k # k' # rest \<Rightarrow> is_record (obj_get (ms_copy st) k)
                        | _ \<Rightarrow> False)
           in case baseSet (ms_copy st) ks v of
                Returns copy \<Rightarrow>
                  (case (if shared then baseSet (ms_own st) ks v else Returns (ms_own st)) of
                     Returns own \<Rightarrow>
                       Returns (st \<lparr> ms_copy := copy, ms_own := own,
                                     ms_reassigned := (if keeps then ms_reassigned st
                                                       else take 1 ks @ ms_reassigned st) \<rparr>)
                   | Throws e \<Rightarrow> Throws e
                   | Beyond \<Rightarrow> Beyond)
              | Throws e \<Rightarrow> Throws e
              | Beyond \<Rightarrow> Beyond)
      | Throws e \<Rightarrow> Throws e
      | Beyond \<Rightarrow> Beyond)"

definition mergeRefEntitiesToEntityData ::
  "populate_env \<Rightarrow> bool \<Rightarrow> populate_meta \<Rightarrow> jsval \<times> ds_key
     \<Rightarrow> merge_state outcome \<Rightarrow> merge_state outcome" where
  "mergeRefEntitiesToEntityData env isEntityClass m dk acc =
     (case acc of
        Returns st \<Rightarrow>
          (let data = fst dk; key = snd dk
           in case pm_mapKeyToPropAndSelect m (pe_keyToString env key) of
                None \<Rightarrow> Throws (TypeError ''Cannot read property 'ref' of undefined'')
              | Some ref \<Rightarrow>
                  (if \<not> js_truthy data then merge_write (ref_path ref) data st
                   else
                     (case data of
                        JObj r \<Rightarrow>
                          (case projection env key ref r of
                             Returns v \<Rightarrow>
                               (case merge_write (ref_path ref) v st of
                                  Returns written \<Rightarrow>
                                    Returns (if isEntityClass
                                             then written \<lparr> ms_assigned := True \<rparr>
                                             else written)
                                | Throws e \<Rightarrow> Throws e
                                | Beyond \<Rightarrow> Beyond)
                           | Throws e \<Rightarrow> Throws e
                           | Beyond \<Rightarrow> Beyond)
                      | _ \<Rightarrow> Beyond)))
      | Throws e \<Rightarrow> Throws e
      | Beyond \<Rightarrow> Beyond)"

definition onKeysFetched ::
  "populate_env \<Rightarrow> bool \<Rightarrow> jsval list option \<Rightarrow> populate_meta \<Rightarrow> obj outcome" where
  "onKeysFetched env isEntityClass response m =
     (case response of
        None \<Rightarrow> Returns (pm_entityData m)
      | Some rs \<Rightarrow>
          (case fold (mergeRefEntitiesToEntityData env isEntityClass m)
                  (zip rs (pm_keysToFetch m))
                  (Returns \<lparr> ms_own = pm_entityData m, ms_copy = pm_entityData m,
                             ms_reassigned = [], ms_assigned = \<not> isEntityClass \<rparr>) of
             Returns st \<Rightarrow> Returns (if ms_assigned st then ms_copy st else ms_own st)
           | Throws e \<Rightarrow> Throws e
           | Beyond \<Rightarrow> Beyond))"


subsection \<open>One level, and all levels in turn\<close>

fun sequence_outcomes :: "'a outcome list \<Rightarrow> 'a list outcome" where
  "sequence_outcomes [] = Returns []"
| "sequence_outcomes (Returns x # rs) =
     (case sequence_outcomes rs of
        Returns xs \<Rightarrow> Returns (x # xs)
      | Throws e \<Rightarrow> Throws e
      | Beyond \<Rightarrow> Beyond)"
| "sequence_outcomes (Throws e # rs) = Throws e"
| "sequence_outcomes (Beyond # rs) = Beyond"

text \<open>
  \<open>fetchEntityByKey\<close> for every entity of the level that has keys to fetch (the others
  get the response null): through the transaction when one is given, else through the
  data loader, whose loads of one level are dispatched together.
\<close>

definition transaction_get_all ::
  "populate_env \<Rightarrow> populate_meta list \<Rightarrow> fetcher \<Rightarrow> jsval list option list \<times> fetcher" where
  "transaction_get_all env metas f =
     fold (\<lambda>m acc.
             if pm_keysToFetch m = [] then (fst acc @ [None], snd acc)
             else (let r = transaction_get env (pm_keysToFetch m) (snd acc)
                   in (fst acc @ [Some (fst r)], snd r)))
       metas ([], f)"

definition level_responses ::
  "populate_env \<Rightarrow> populate_options \<Rightarrow> populate_meta list \<Rightarrow> fetcher
     \<Rightarrow> (jsval list option list \<times> fetcher) outcome" where
  \<open>level_responses env opts metas f =
     (if list_all (\<lambda>m. pm_keysToFetch m = []) metas then Returns (map (\<lambda>m. None) metas, f)
      else
        (case po_transaction opts of
           NotATransaction \<Rightarrow> Throws (Error ''Transaction needs to be a gcloud Transaction'')
         | Transaction \<Rightarrow> Returns (transaction_get_all env metas f)
         | NoTransaction \<Rightarrow>
             (case po_dataloader opts of
                NotADataLoader \<Rightarrow>
                  Throws (GstoreError ''ERR_GENERIC'' ''dataloader must be a "DataLoader" instance'')
              | _ \<Rightarrow>
                  (let r = loadMany_level env (map pm_keysToFetch metas) f
                   in Returns (map2 (\<lambda>m rs. if pm_keysToFetch m = [] then None else Some rs)
                                 metas (fst r),
                               snd r)))))\<close>

definition fetchRefsEntitiesRefsAtLevel ::
  "populate_env \<Rightarrow> populate_options \<Rightarrow> bool \<Rightarrow> populate_ref list
     \<Rightarrow> (obj list \<times> fetcher) outcome \<Rightarrow> (obj list \<times> fetcher) outcome" where
  "fetchRefsEntitiesRefsAtLevel env opts isEntityClass entityRefs acc =
     (case acc of
        Returns (entities, f) \<Rightarrow>
          (case sequence_outcomes
                  (map (\<lambda>ed. getPopulateMetaForEntity env ed entityRefs) entities) of
             Returns metas \<Rightarrow>
               (case level_responses env opts metas f of
                  Returns (responses, f') \<Rightarrow>
                    (case sequence_outcomes
                            (map2 (onKeysFetched env isEntityClass) responses metas) of
                       Returns merged \<Rightarrow> Returns (merged, f')
                     | Throws e \<Rightarrow> Throws e
                     | Beyond \<Rightarrow> Beyond)
                | Throws e \<Rightarrow> Throws e
                | Beyond \<Rightarrow> Beyond)
           | Throws e \<Rightarrow> Throws e
           | Beyond \<Rightarrow> Beyond)
      | Throws e \<Rightarrow> Throws e
      | Beyond \<Rightarrow> Beyond)"

text \<open>
  \<open>populate(refs, options)(entities)\<close>. The roots are the records of entities of a model
  (\<open>isEntityClass\<close>) or plain records. The promise resolves with the roots, their
  references resolved; the model keeps the reads made beside them.
\<close>

definition initial_fetcher :: "populate_options \<Rightarrow> fetcher" where
  "initial_fetcher opts =
     \<lparr> f_cache = (case po_dataloader opts of DataLoader c \<Rightarrow> c | _ \<Rightarrow> Map.empty),
       f_log = [] \<rparr>"

definition populate ::
  "populate_env \<Rightarrow> populate_ref list list \<Rightarrow> populate_options \<Rightarrow> bool \<Rightarrow> obj list
     \<Rightarrow> (obj list \<times> fetcher) outcome" where
  "populate env refs opts isEntityClass entities =
     (if refs = [] then Returns (entities, initial_fetcher opts)
      else fold (fetchRefsEntitiesRefsAtLevel env opts isEntityClass) refs
             (Returns (entities, initial_fetcher opts)))"

definition populate_roots :: "(obj list \<times> fetcher) outcome \<Rightarrow> obj list outcome" where
  "populate_roots r =
     (case r of
        Returns (entities, f) \<Rightarrow> Returns entities
      | Throws e \<Rightarrow> Throws e
      | Beyond \<Rightarrow> Beyond)"

definition populate_reads :: "(obj list \<times> fetcher) outcome \<Rightarrow> ds_key list list" where
  "populate_reads r = (case r of Returns (entities, f) \<Rightarrow> f_log f | _ \<Rightarrow> [])"

subsection \<open>A path whose first field is absent\<close>

lemma obj_read_plain:
  "k \<notin> set object_prototype_names \<Longrightarrow> obj_read fs k = Returns (obj_get fs k)"
  by (simp add: obj_read_def obj_get_def obj_has_def split: option.splits)

lemma obj_has_obj_set: "obj_has (obj_set k v fs) k' = (k' = k \<or> obj_has fs k')"
proof (cases "obj_has fs k")
  case True
  have "map_of (map (\<lambda>kv. if fst kv = k then (k, v) else kv) fs) k' = None \<longleftrightarrow> map_of fs k' = None"
    by (induction fs) auto
  then show ?thesis using True by (auto simp: obj_set_def obj_has_def)
next
  case False
  then show ?thesis by (auto simp: obj_set_def obj_has_def map_add_def split: option.splits)
qed

lemma obj_get_obj_set_same: "obj_get (obj_set k v fs) k = v"
proof (cases "obj_has fs k")
  case True
  then have "map_of (map (\<lambda>kv. if fst kv = k then (k, v) else kv) fs) k = Some v"
    by (induction fs) (auto simp: obj_has_def split: if_splits)
  then show ?thesis using True by (simp add: obj_set_def obj_get_def)
next
  case False
  then show ?thesis by (simp add: obj_set_def obj_get_def obj_has_def map_add_def)
qed

lemma obj_get_single: "obj_get [(k, v)] k = v"
  by (simp add: obj_get_def)

lemma split_address_addressBook:
  "split_dots ''address.addressBook'' = [''address'', ''addressBook'']"
  by simp

lemma castPath_address: "castPath ''address'' fs = Returns [''address'']"
  by (simp add: castPath_def)

lemma castPath_address_addressBook:
  "\<not> obj_has fs ''address.addressBook''
   \<Longrightarrow> castPath ''address.addressBook'' fs = Returns [''address'', ''addressBook'']"
  by (simp add: castPath_def)

lemma read_address: "obj_read fs ''address'' = Returns (obj_get fs ''address'')"
  by (rule obj_read_plain) (simp add: object_prototype_names_def)

lemma not_index_addressBook: "\<not> isIndex ''addressBook''"
  by (simp add: isIndex_def is_digit_def)

lemma meta_absent:
  assumes "lodash_get fs (ref_path ref) = Returns w" and "\<not> js_truthy w"
    and "lodash_set fs (ref_path ref) JNull = Returns fs'"
  shows "getPopulateMetaForEntity env fs [ref] =
           Returns \<lparr> pm_entityData = fs', pm_keysToFetch = [],
                      pm_mapKeyToPropAndSelect = Map.empty \<rparr>"
  using assms by (simp add: getPopulateMetaForEntity_def meta_step_def)

lemma level_absent:
  assumes "lodash_get fs (ref_path ref) = Returns w" and "\<not> js_truthy w"
    and "lodash_set fs (ref_path ref) JNull = Returns fs'"
  shows "fetchRefsEntitiesRefsAtLevel env opts ec [ref] (Returns ([fs], f)) = Returns ([fs'], f)"
  by (simp add: fetchRefsEntitiesRefsAtLevel_def meta_absent[OF assms] level_responses_def
        onKeysFetched_def)

definition no_value :: "jsval \<Rightarrow> bool" where
  "no_value v = (v = JUndefined \<or> v = JNull)"

lemma get_address_addressBook_absent:
  assumes "no_value (obj_get fs ''address'')" and "\<not> obj_has fs ''address.addressBook''"
  shows "lodash_get fs ''address.addressBook'' = Returns JUndefined"
  using assms
  by (auto simp: lodash_get_def castPath_address_addressBook read_address no_value_def)

lemma set_address_addressBook_absent:
  assumes "no_value (obj_get fs ''address'')" and "\<not> obj_has fs ''address.addressBook''"
  shows "lodash_set fs ''address.addressBook'' JNull =
           Returns (obj_set ''address'' (JObj [(''addressBook'', JNull)]) fs)"
  using assms
  by (auto simp: lodash_set_def castPath_address_addressBook read_address no_value_def
        not_index_addressBook obj_assign_def obj_set_def obj_has_def)

lemma get_address_absent:
  assumes "no_value (obj_get fs ''address'')"
  shows "\<exists>w. lodash_get fs ''address'' = Returns w \<and> \<not> js_truthy w"
  using assms by (auto simp: lodash_get_def castPath_address read_address no_value_def)

lemma set_address_null:
  "lodash_set fs ''address'' JNull = Returns (obj_set ''address'' JNull fs)"
  by (simp add: lodash_set_def castPath_address obj_assign_def)

text \<open>
  C5. On a root record whose field \<open>address\<close> is absent, undefined or null, and that has
  no property named \<open>address.addressBook\<close> itself, \<open>populate\<close> of the path
  \<open>address.addressBook\<close>, alone or after the level of \<open>address\<close>, resolves, reads
  nothing from the store, and writes null at the path: \<open>address\<close> becomes an object
  whose property \<open>addressBook\<close> is null.
\<close>

theorem populate_absent_address_sets_null:
  assumes "no_value (obj_get fs ''address'')" and "\<not> obj_has fs ''address.addressBook''"
  shows "populate env [[\<lparr> ref_path = ''address.addressBook'', ref_select = sel \<rparr>]] opts ec [fs]
           = Returns ([obj_set ''address'' (JObj [(''addressBook'', JNull)]) fs],
                      initial_fetcher opts)
       \<and> populate env [[\<lparr> ref_path = ''address'', ref_select = sel_address \<rparr>],
                        [\<lparr> ref_path = ''address.addressBook'', ref_select = sel \<rparr>]] opts ec [fs]
           = Returns ([obj_set ''address'' (JObj [(''addressBook'', JNull)])
                         (obj_set ''address'' JNull fs)], initial_fetcher opts)
       \<and> lodash_get (obj_set ''address'' (JObj [(''addressBook'', JNull)]) fs)
            ''address.addressBook'' = Returns JNull"
proof -
  let ?r1 = "\<lparr> ref_path = ''address.addressBook'', ref_select = sel \<rparr>"
  let ?r0 = "\<lparr> ref_path = ''address'', ref_select = sel_address \<rparr>"
  let ?book = "JObj [(''addressBook'', JNull)]"
  have g1: "lodash_get fs (ref_path ?r1) = Returns JUndefined"
    using get_address_addressBook_absent[OF assms] by simp
  have s1: "lodash_set fs (ref_path ?r1) JNull = Returns (obj_set ''address'' ?book fs)"
    using set_address_addressBook_absent[OF assms] by simp
  have one: "populate env [[?r1]] opts ec [fs]
           = Returns ([obj_set ''address'' ?book fs], initial_fetcher opts)"
    using level_absent[OF g1 _ s1] by (simp add: populate_def)
  let ?fs0 = "obj_set ''address'' JNull fs"
  obtain w where g0: "lodash_get fs (ref_path ?r0) = Returns w" and w: "\<not> js_truthy w"
    using get_address_absent[OF assms(1)] by auto
  have s0: "lodash_set fs (ref_path ?r0) JNull = Returns ?fs0"
    by (simp add: set_address_null)
  have a0: "no_value (obj_get ?fs0 ''address'')"
    by (simp add: obj_get_obj_set_same no_value_def)
  have h0: "\<not> obj_has ?fs0 ''address.addressBook''"
    using assms(2) by (simp add: obj_has_obj_set)
  have g1': "lodash_get ?fs0 (ref_path ?r1) = Returns JUndefined"
    using get_address_addressBook_absent[OF a0 h0] by simp
  have s1': "lodash_set ?fs0 (ref_path ?r1) JNull = Returns (obj_set ''address'' ?book ?fs0)"
    using set_address_addressBook_absent[OF a0 h0] by simp
  have two: "populate env [[?r0], [?r1]] opts ec [fs]
           = Returns ([obj_set ''address'' ?book ?fs0], initial_fetcher opts)"
    using level_absent[OF g0 w s0, of env opts ec "initial_fetcher opts"]
          level_absent[OF g1' _ s1', of env opts ec "initial_fetcher opts"]
    by (simp add: populate_def)
  have h1: "\<not> obj_has (obj_set ''address'' ?book fs) ''address.addressBook''"
    using assms(2) by (simp add: obj_has_obj_set)
  have book: "obj_read [(''addressBook'', JNull)] ''addressBook'' = Returns JNull"
    by (simp add: obj_read_def obj_has_def obj_get_def)
  have three: "lodash_get (obj_set ''address'' ?book fs) ''address.addressBook'' = Returns JNull"
    by (simp add: lodash_get_def castPath_address_addressBook[OF h1] read_address
          obj_get_obj_set_same book)
  show ?thesis using one two three by blast
qed


subsection \<open>Example: a user, an address, and the store\<close>

text \<open>
  An example of a stringifier of keys: the namespace and the elements of the path in a
  row. The store holds one address; a model is registered for its kind, whose entities
  give their record as their plain form.
\<close>

fun elem_string :: "path_elem \<Rightarrow> string" where
  "elem_string (PStr s) = s"
| "elem_string (PInt s) = s"
| "elem_string (PNum n) = (if n < 0 then ''-'' @ nat_digits (nat (- n)) else nat_digits (nat n))"

definition key_string :: "ds_key \<Rightarrow> string" where
  "key_string k =
     (case key_namespace k of Some ns \<Rightarrow> ns | None \<Rightarrow> []) @ concat (map elem_string (key_path k))"

definition addr_key :: ds_key where
  "addr_key = \<lparr> key_namespace = None, key_path = [PStr ''Address'', PStr ''home''] \<rparr>"

definition entity_plain :: "obj \<Rightarrow> obj" where
  "entity_plain r = r"

definition demo_env :: populate_env where
  "demo_env = \<lparr> pe_entities = [addr_key \<mapsto> [(''city'', JStr ''Paris'')]],
                pe_keyToString = key_string,
                pe_model = [''Address'' \<mapsto> entity_plain] \<rparr>"

definition john :: obj where
  "john = [(''name'', JStr ''John'')]"



definition address_ref :: populate_ref where
  "address_ref = \<lparr> ref_path = ''address'', ref_select = [''*''] \<rparr>"

definition addressBook_ref :: populate_ref where
  "addressBook_ref = \<lparr> ref_path = ''address.addressBook'', ref_select = [''*''] \<rparr>"

definition plain_options :: populate_options where
  "plain_options = \<lparr> po_transaction = NoTransaction, po_dataloader = NoDataLoader \<rparr>"


theorem populate_absent_address_sets_null_witness:
  "no_value (obj_get john ''address'') \<and> \<not> obj_has john ''address.addressBook''
   \<and> populate demo_env [[addressBook_ref]] plain_options True [john]
       = Returns ([[(''name'', JStr ''John''), (''address'', JObj [(''addressBook'', JNull)])]],
                  initial_fetcher plain_options)"
  using populate_absent_address_sets_null
          [where fs = john and env = demo_env and opts = plain_options and ec = True
             and sel = "[''*'']" and sel_address = "[''*'']"]
  by (simp add: john_def addressBook_ref_def obj_get_def obj_has_def obj_set_def no_value_def)

lemmas populate_eval =
  populate_roots_def populate_reads_def populate_def fetchRefsEntitiesRefsAtLevel_def
  getPopulateMetaForEntity_def meta_step_def level_responses_def onKeysFetched_def
  lodash_get_def lodash_set_def castPath_def obj_read_def obj_assign_def isIndex_def
  is_digit_def object_prototype_names_def obj_get_def obj_has_def obj_set_def

theorem populate_absent_address_counterexample:
  "populate_roots (populate demo_env [[address_ref], [addressBook_ref]] plain_options True [john])
     = Returns [[(''name'', JStr ''John''), (''address'', JObj [(''addressBook'', JNull)])]]
   \<and> populate_roots (populate demo_env [[address_ref], [addressBook_ref]] plain_options True [john])
     \<noteq> Returns [john]"
  by (simp add: populate_eval john_def address_ref_def addressBook_ref_def plain_options_def)


subsection \<open>Reads through the data loader\<close>















subsection \<open>Roots that hold the same key\<close>















lemmas populate_eval2 =
  populate_eval transaction_get_all_def transaction_get_def initial_fetcher_def
  loadMany_level_def first_keys_def store_value_def
  mergeRefEntitiesToEntityData_def merge_write_def projection_def select_fields_def
  key_name_or_id_def Key_kind_def entity_plain_def key_string_def
  demo_env_def addr_key_def



text \<open>
  Two paths of one root that hold the same key share one entry of
  \<open>mapKeyToPropAndSelect\<close>, the later reference's: the record is written twice at the
  later path, and the earlier path keeps the key.
\<close>

lemma populate_two_paths_same_key:
  "populate_roots
     (populate demo_env
        [[\<lparr> ref_path = ''billing'', ref_select = [''*''] \<rparr>,
          \<lparr> ref_path = ''shipping'', ref_select = [''*''] \<rparr>]]
        plain_options False
        [[(''billing'', JKey addr_key), (''shipping'', JKey addr_key)]])
   = Returns [[(''billing'', JKey addr_key),
           (''shipping'', JObj [(''city'', JStr ''Paris''), (''id'', JStr ''home'')])]]"
  by (simp add: populate_eval2 plain_options_def Let_def)

section \<open>Model.update\<close>

subsection \<open>Promises and the calls made on the store\<close>

text \<open>
  The calls that \<open>update\<close> makes on its collaborators, in order: on the transaction
  (\<open>run\<close>, \<open>get\<close>, \<open>save\<close>, \<open>commit\<close>, \<open>rollback\<close>, the post hooks attached to
  it), on the datastore (\<open>save\<close> outside a transaction), on the data loader (clearing
  a key) and on the cache (\<open>clearCache\<close> with a key, or with none). A call carries the
  key it is about.
\<close>

datatype tx_call =
    TxRun
  | TxGet ds_key
  | TxSave ds_key
  | TxCommit
  | TxRollback
  | TxExecPostHooks
  | StoreSave ds_key
  | LoaderClear ds_key
  | CacheClear "ds_key option"

text \<open>
  A promise, once settled: the calls made until then, and the value it resolves with
  (\<open>Inr\<close>) or the error it rejects with (\<open>Inl\<close>). \<open>then_p\<close> is \<open>p.then(f)\<close>,
  \<open>catch_p\<close> is \<open>p.catch(g)\<close>, and \<open>then2_p\<close> is \<open>p.then(f, g)\<close>, where \<open>g\<close> does not
  see what \<open>f\<close> throws.
\<close>

type_synonym 'a promise = "tx_call list \<times> (error + 'a)"

definition resolve_p :: "'a \<Rightarrow> 'a promise" where
  "resolve_p v = ([], Inr v)"

definition reject_p :: "error \<Rightarrow> 'a promise" where
  "reject_p e = ([], Inl e)"

definition then_p :: "'a promise \<Rightarrow> ('a \<Rightarrow> 'b promise) \<Rightarrow> 'b promise" where
  "then_p p f =
     (case snd p of
        Inl e \<Rightarrow> (fst p, Inl e)
      | Inr v \<Rightarrow> (fst p @ fst (f v), snd (f v)))"

definition catch_p :: "'a promise \<Rightarrow> (error \<Rightarrow> 'a promise) \<Rightarrow> 'a promise" where
  "catch_p p g =
     (case snd p of
        Inl e \<Rightarrow> (fst p @ fst (g e), snd (g e))
      | Inr v \<Rightarrow> p)"

definition then2_p ::
  "'a promise \<Rightarrow> ('a \<Rightarrow> 'b promise) \<Rightarrow> (error \<Rightarrow> 'b promise) \<Rightarrow> 'b promise" where
  "then2_p p f g =
     (case snd p of
        Inl e \<Rightarrow> (fst p @ fst (g e), snd (g e))
      | Inr v \<Rightarrow> (fst p @ fst (f v), snd (f v)))"

subsection \<open>The model, the store and the options\<close>

text \<open>
  What \<open>update\<close> reads of the model it is called on: its kind and schema, the runtime,
  whether the cache is on for the call, and \<open>um_validate\<close>: the error that the validation
  of \<open>save\<close> reports for an entity built from a record, if any (the validation helpers
  are not among the sources). No hook is registered on \<open>save\<close>. The store is a double:
  the records it holds, and the failure, if any, with which each of its operations
  answers during the call.
\<close>

record update_model =
  um_kind :: string
  um_schema :: schema
  um_runtime :: js_runtime
  um_validate :: "obj \<Rightarrow> error option"
  um_has_cache :: bool

record update_store =
  us_entities :: "ds_key \<rightharpoonup> obj"
  us_run_fails :: "error option"
  us_get_fails :: "error option"
  us_commit_fails :: "error option"
  us_rollback_fails :: "error option"
  us_save_fails :: "error option"
  us_cache_fails :: "error option"

record update_options =
  uo_replace :: bool
  uo_dataloader :: bool

datatype id_arg = IdString string | IdNumber int

definition answer :: "error option \<Rightarrow> 'a \<Rightarrow> error + 'a" where
  "answer failure v = (case failure of Some e \<Rightarrow> Inl e | None \<Rightarrow> Inr v)"

definition tx_run :: "update_store \<Rightarrow> unit promise" where
  "tx_run st = ([TxRun], answer (us_run_fails st) ())"

definition tx_get :: "update_store \<Rightarrow> ds_key \<Rightarrow> obj option promise" where
  "tx_get st key = ([TxGet key], answer (us_get_fails st) (us_entities st key))"

definition tx_commit :: "update_store \<Rightarrow> unit promise" where
  "tx_commit st = ([TxCommit], answer (us_commit_fails st) ())"

definition tx_rollback :: "update_store \<Rightarrow> unit promise" where
  "tx_rollback st = ([TxRollback], answer (us_rollback_fails st) ())"

definition ds_save :: "update_store \<Rightarrow> ds_key \<Rightarrow> unit promise" where
  "ds_save st key = ([StoreSave key], answer (us_save_fails st) ())"

definition clearCache :: "update_store \<Rightarrow> ds_key option \<Rightarrow> unit promise" where
  "clearCache st key = ([CacheClear key], answer (us_cache_fails st) ())"

subsection \<open>Keys, the shallow merge, and save\<close>

text \<open>
  \<open>Model.key(id, ancestors, namespace)\<close> for one id, as the TypeScript model has it: the
  id goes into the path as it is.
\<close>

definition id_elem :: "id_arg \<Rightarrow> path_elem" where
  "id_elem ident = (case ident of IdString s \<Rightarrow> PStr s | IdNumber n \<Rightarrow> PNum n)"

definition Model_key ::
  "update_model \<Rightarrow> path_elem \<Rightarrow> path_elem list option \<Rightarrow> string option \<Rightarrow> ds_key" where
  "Model_key m ident ancestors namespace =
     \<lparr> key_namespace = namespace,
       key_path = (case ancestors of Some a \<Rightarrow> a | None \<Rightarrow> []) @ [PStr (um_kind m), ident] \<rparr>"

text \<open>
  \<open>parseId\<close> of the JavaScript model, which it applies to the id before it builds the
  key: a string that \<open>isFinite\<close> accepts becomes the number \<open>parseInt\<close> reads.
\<close>

definition Model_parseId :: "js_runtime \<Rightarrow> id_arg \<Rightarrow> id_arg" where
  "Model_parseId rt ident =
     (case ident of
        IdString s \<Rightarrow> (if rt_isFinite rt s then IdNumber (rt_parseInt rt s) else IdString s)
      | IdNumber n \<Rightarrow> IdNumber n)"

text \<open>\<open>id.toString()\<close>, for the message of the error.\<close>

definition id_toString :: "id_arg \<Rightarrow> string" where
  "id_toString ident =
     (case ident of
        IdString s \<Rightarrow> s
      | IdNumber n \<Rightarrow> (if n < 0 then ''-'' @ nat_digits (nat (- n)) else nat_digits (nat n)))"

definition not_found_error :: "id_arg \<Rightarrow> error" where
  "not_found_error ident =
     GstoreError ''ERR_ENTITY_NOT_FOUND'' (''Entity { '' @ id_toString ident @ '' } to update not found'')"

text \<open>
  \<open>extend(false, entity, data)\<close>: every property of \<open>data\<close> whose value is not undefined
  is assigned to \<open>entity\<close>.
\<close>

definition extend_shallow :: "obj \<Rightarrow> obj \<Rightarrow> obj" where
  "extend_shallow target source =
     fold (\<lambda>kv acc. if snd kv \<noteq> JUndefined then obj_set (fst kv) (snd kv) acc else acc)
       source target"

text \<open>
  \<open>this.__model(data, null, null, null, key).save(transaction)\<close>. The entity takes the key
  it is given, or the incomplete key of the kind when it is given none (the constructor
  and \<open>createKey\<close> above). \<open>save\<close> validates when the schema says so, then hands the
  entity to the transaction, or to the datastore when there is no transaction, after
  which it clears the cache of the kind when the cache is on. It resolves with the entity,
  which the model identifies by its key.
\<close>

definition entity_key_or_incomplete :: "update_model \<Rightarrow> ds_key option \<Rightarrow> error + ds_key" where
  "entity_key_or_incomplete m key =
     Entity_entityKey (um_runtime m) (um_kind m) (um_schema m) JNull None None
       (case key of Some k \<Rightarrow> JKey k | None \<Rightarrow> JUndefined)"

definition save_cache_error :: error where
  "save_cache_error =
     Error (''Error while clearing the cache after saving the entity.''
            @ ''The entity has been saved successfully though. ''
            @ ''Both the cache error and the entity saved have been attached.'')"

definition entity_save ::
  "update_model \<Rightarrow> update_store \<Rightarrow> ds_key \<Rightarrow> obj \<Rightarrow> transaction_arg \<Rightarrow> ds_key promise" where
  "entity_save m st key ed transaction =
     (case (if s_validateBeforeSave (um_schema m) then um_validate m ed else None) of
        Some e \<Rightarrow> reject_p e
      | None \<Rightarrow>
          (case transaction of
             NoTransaction \<Rightarrow>
               then_p (ds_save st key)
                 (\<lambda>u. if um_has_cache m then
                         then2_p (clearCache st None) (\<lambda>u. resolve_p key)
                           (\<lambda>e. reject_p save_cache_error)
                       else resolve_p key)
           | NotATransaction \<Rightarrow> reject_p (Error ''Transaction needs to be a gcloud Transaction'')
           | Transaction \<Rightarrow> ([TxSave key], Inr key)))"

text \<open>
  What \<open>getEntity\<close> hands to \<open>saveEntity\<close>: the key and the merged record, or, in the
  JavaScript model, the error that its \<open>catch\<close> returns.
\<close>

datatype get_data = GetData ds_key obj | GetError error

definition saveEntity ::
  "update_model \<Rightarrow> update_store \<Rightarrow> transaction_arg \<Rightarrow> get_data \<Rightarrow> ds_key promise" where
  "saveEntity m st transaction getData =
     (let entityKey = (case getData of GetData k d \<Rightarrow> Some k | GetError e \<Rightarrow> None);
          ed = (case getData of GetData k d \<Rightarrow> d | GetError e \<Rightarrow> [])
      in case entity_key_or_incomplete m entityKey of
           Inl e \<Rightarrow> reject_p e
         | Inr k \<Rightarrow> entity_save m st k ed transaction)"

definition update_cache_error :: error where
  "update_cache_error =
     Error (''Error while clearing the cache after updating the entity.''
            @ ''The entity has been updated successfully though. ''
            @ ''Both the cache error and the entity updated have been attached.'')"

definition onTransactionSuccess ::
  "update_model \<Rightarrow> update_store \<Rightarrow> ds_key \<Rightarrow> ds_key \<Rightarrow> ds_key promise" where
  "onTransactionSuccess m st key entityUpdated =
     (if um_has_cache m then
        then2_p (clearCache st (Some key)) (\<lambda>u. resolve_p entityUpdated)
          (\<lambda>e. reject_p update_cache_error)
      else resolve_p entityUpdated)"

definition loader_clear :: "update_options \<Rightarrow> ds_key \<Rightarrow> unit promise" where
  "loader_clear options key = ((if uo_dataloader options then [LoaderClear key] else []), Inr ())"

subsection \<open>update, in the TypeScript model\<close>

text \<open>
  \<open>internalTransaction\<close> is true exactly when \<open>update\<close> opened the transaction itself.
\<close>

definition getEntity_ts ::
  "update_store \<Rightarrow> ds_key \<Rightarrow> id_arg \<Rightarrow> obj \<Rightarrow> get_data promise" where
  "getEntity_ts st key ident data =
     then_p (tx_get st key)
       (\<lambda>entity. case entity of
                    None \<Rightarrow> reject_p (not_found_error ident)
                  | Some e \<Rightarrow> resolve_p (GetData key (extend_shallow e data)))"

definition onEntityUpdated_ts ::
  "update_model \<Rightarrow> update_store \<Rightarrow> ds_key \<Rightarrow> update_options \<Rightarrow> bool \<Rightarrow> ds_key
     \<Rightarrow> ds_key promise" where
  "onEntityUpdated_ts m st key options internalTransaction entity =
     then_p (loader_clear options key)
       (\<lambda>u. if internalTransaction then
               then_p (tx_commit st)
                 (\<lambda>u. then_p ([TxExecPostHooks], Inr ())
                         (\<lambda>u. onTransactionSuccess m st key entity))
             else onTransactionSuccess m st key entity)"

definition onUpdateError_ts :: "update_store \<Rightarrow> bool \<Rightarrow> error \<Rightarrow> ds_key promise" where
  "onUpdateError_ts st internalTransaction err =
     (if internalTransaction then then_p (tx_rollback st) (\<lambda>u. reject_p err)
      else reject_p err)"

definition getAndUpdate_ts ::
  "update_model \<Rightarrow> update_store \<Rightarrow> ds_key \<Rightarrow> id_arg \<Rightarrow> obj \<Rightarrow> update_options \<Rightarrow> bool
     \<Rightarrow> ds_key promise" where
  "getAndUpdate_ts m st key ident data options internalTransaction =
     then_p (then_p (getEntity_ts st key ident data) (saveEntity m st Transaction))
       (onEntityUpdated_ts m st key options internalTransaction)"

definition update_ts ::
  "update_model \<Rightarrow> update_store \<Rightarrow> id_arg \<Rightarrow> obj \<Rightarrow> path_elem list option \<Rightarrow> string option
     \<Rightarrow> transaction_arg \<Rightarrow> update_options \<Rightarrow> ds_key promise" where
  "update_ts m st ident data ancestors namespace transaction options =
     (let key = Model_key m (id_elem ident) ancestors namespace
      in if uo_replace options then
           catch_p (then_p (saveEntity m st transaction (GetData key data))
                      (onEntityUpdated_ts m st key options False))
             (onUpdateError_ts st False)
         else
           (case transaction of
              NoTransaction \<Rightarrow>
                catch_p (then_p (tx_run st)
                           (\<lambda>u. getAndUpdate_ts m st key ident data options True))
                  (onUpdateError_ts st True)
            | NotATransaction \<Rightarrow> reject_p (Error ''Transaction needs to be a gcloud Transaction'')
            | Transaction \<Rightarrow> getAndUpdate_ts m st key ident data options False))"

subsection \<open>update, in the JavaScript model\<close>

text \<open>
  Here \<open>onEntityUpdated\<close> and \<open>onUpdateError\<close> test \<open>transaction\<close> itself, which is set
  whenever the caller passed one or \<open>update\<close> opened one; \<open>getEntity\<close> ends in a \<open>catch\<close>
  that returns the error, so that \<open>saveEntity\<close> runs on it; and \<open>onUpdateError\<close> hands
  the answer of \<open>rollback\<close> to \<open>onTransactionError\<close>, which throws it.
\<close>

definition getEntity_js ::
  "update_store \<Rightarrow> ds_key \<Rightarrow> id_arg \<Rightarrow> obj \<Rightarrow> get_data promise" where
  "getEntity_js st key ident data =
     catch_p
       (then_p (tx_get st key)
          (\<lambda>entity. case entity of
                       None \<Rightarrow> reject_p (not_found_error ident)
                     | Some e \<Rightarrow> resolve_p (GetData key (extend_shallow e data))))
       (\<lambda>err. resolve_p (GetError err))"

definition onTransactionError :: "error \<Rightarrow> ds_key promise" where
  "onTransactionError transactionError = reject_p transactionError"

definition onEntityUpdated_js ::
  "update_model \<Rightarrow> update_store \<Rightarrow> ds_key \<Rightarrow> update_options \<Rightarrow> transaction_arg \<Rightarrow> ds_key
     \<Rightarrow> ds_key promise" where
  "onEntityUpdated_js m st key options transaction entity =
     then_p (loader_clear options key)
       (\<lambda>u. case transaction of
               NoTransaction \<Rightarrow> onTransactionSuccess m st key entity
             | Transaction \<Rightarrow>
                 then_p (tx_commit st) (\<lambda>u. onTransactionSuccess m st key entity)
             | NotATransaction \<Rightarrow> reject_p (TypeError ''transaction.commit is not a function''))"

definition onUpdateError_js :: "update_store \<Rightarrow> transaction_arg \<Rightarrow> error \<Rightarrow> ds_key promise" where
  "onUpdateError_js st transaction err =
     (case transaction of
        NoTransaction \<Rightarrow> onTransactionError err
      | Transaction \<Rightarrow>
          then_p (tx_rollback st) (\<lambda>u. onTransactionError (ApiResponse ''rollback''))
      | NotATransaction \<Rightarrow> reject_p (TypeError ''transaction.rollback is not a function''))"

definition getAndUpdate_js ::
  "update_model \<Rightarrow> update_store \<Rightarrow> ds_key \<Rightarrow> id_arg \<Rightarrow> obj \<Rightarrow> update_options
     \<Rightarrow> ds_key promise" where
  "getAndUpdate_js m st key ident data options =
     then2_p (then_p (getEntity_js st key ident data) (saveEntity m st Transaction))
       (onEntityUpdated_js m st key options Transaction)
       (onUpdateError_js st Transaction)"

definition update_js ::
  "update_model \<Rightarrow> update_store \<Rightarrow> id_arg \<Rightarrow> obj \<Rightarrow> path_elem list option \<Rightarrow> string option
     \<Rightarrow> transaction_arg \<Rightarrow> update_options \<Rightarrow> ds_key promise" where
  "update_js m st ident0 data ancestors namespace transaction options =
     (let ident = Model_parseId (um_runtime m) ident0;
          key = Model_key m (id_elem ident) ancestors namespace
      in if uo_replace options then
           then2_p (saveEntity m st transaction (GetData key data))
             (onEntityUpdated_js m st key options transaction)
             (onUpdateError_js st transaction)
         else
           (case transaction of
              NoTransaction \<Rightarrow>
                catch_p (then_p (tx_run st) (\<lambda>u. getAndUpdate_js m st key ident data options))
                  onTransactionError
            | NotATransaction \<Rightarrow> reject_p (Error ''Transaction needs to be a gcloud Transaction'')
            | Transaction \<Rightarrow>
                catch_p (getAndUpdate_js m st key ident data options) onTransactionError))"

definition blog_model :: update_model where
  "blog_model =
     \<lparr> um_kind = ''BlogPost'', um_schema = user_schema \<lparr> s_explicitOnly := Some False \<rparr>,
       um_runtime = node_runtime, um_validate = (\<lambda>ed. None), um_has_cache = False \<rparr>"

definition empty_store :: update_store where
  "empty_store =
     \<lparr> us_entities = Map.empty, us_run_fails = None, us_get_fails = None,
       us_commit_fails = None, us_rollback_fails = None, us_save_fails = None,
       us_cache_fails = None \<rparr>"

definition no_options :: update_options where
  "no_options = \<lparr> uo_replace = False, uo_dataloader = False \<rparr>"

definition stored_post :: update_store where
  "stored_post =
     empty_store \<lparr> us_entities :=
       [\<lparr> key_namespace = None, key_path = [PStr ''BlogPost'', PNum 42] \<rparr>
          \<mapsto> [(''title'', JStr ''Hello'')]] \<rparr>"

definition strict_model :: update_model where
  "strict_model = blog_model \<lparr> um_validate := (\<lambda>ed. Some (Error ''ValidationError'')) \<rparr>"

subsection \<open>The TypeScript update and the caller's transaction\<close>

text \<open>A promise during which the transaction is neither committed nor rolled back.\<close>

definition leaves_open :: "'a promise \<Rightarrow> bool" where
  "leaves_open p = (TxCommit \<notin> set (fst p) \<and> TxRollback \<notin> set (fst p))"

lemma leaves_open_then:
  "leaves_open p \<Longrightarrow> (\<And>v. leaves_open (f v)) \<Longrightarrow> leaves_open (then_p p f)"
  by (auto simp: leaves_open_def then_p_def split: sum.splits)

lemma leaves_open_catch:
  "leaves_open p \<Longrightarrow> (\<And>e. leaves_open (g e)) \<Longrightarrow> leaves_open (catch_p p g)"
  by (auto simp: leaves_open_def catch_p_def split: sum.splits)

lemma leaves_open_then2:
  "leaves_open p \<Longrightarrow> (\<And>v. leaves_open (f v)) \<Longrightarrow> (\<And>e. leaves_open (g e))
     \<Longrightarrow> leaves_open (then2_p p f g)"
  by (auto simp: leaves_open_def then2_p_def split: sum.splits)

lemma leaves_open_basic:
  "leaves_open (resolve_p v)" "leaves_open (reject_p e)"
  "leaves_open (tx_get st key)" "leaves_open (ds_save st key)"
  "leaves_open (clearCache st ko)" "leaves_open (loader_clear options key)"
  by (simp_all add: leaves_open_def resolve_p_def reject_p_def tx_get_def ds_save_def
        clearCache_def loader_clear_def)

lemma leaves_open_entity_save: "leaves_open (entity_save m st key ed transaction)"
proof -
  have tx: "leaves_open (([TxSave key], Inr key) :: ds_key promise)"
    by (simp add: leaves_open_def)
  show ?thesis
    unfolding entity_save_def
    by (auto split: option.splits transaction_arg.splits
             intro!: leaves_open_then leaves_open_then2 leaves_open_basic tx)
qed

lemma leaves_open_saveEntity: "leaves_open (saveEntity m st transaction getData)"
  unfolding saveEntity_def Let_def
  by (auto split: sum.splits intro: leaves_open_basic leaves_open_entity_save)

lemma leaves_open_onTransactionSuccess: "leaves_open (onTransactionSuccess m st key entity)"
  unfolding onTransactionSuccess_def
  by (auto intro!: leaves_open_then2 leaves_open_basic)

lemma leaves_open_onEntityUpdated_ts:
  "leaves_open (onEntityUpdated_ts m st key options False entity)"
  unfolding onEntityUpdated_ts_def
  by (auto intro!: leaves_open_then leaves_open_basic leaves_open_onTransactionSuccess)

lemma leaves_open_getEntity_ts: "leaves_open (getEntity_ts st key ident data)"
  unfolding getEntity_ts_def
  by (auto split: option.splits intro!: leaves_open_then leaves_open_basic)

lemma leaves_open_getAndUpdate_ts:
  "leaves_open (getAndUpdate_ts m st key ident data options False)"
  unfolding getAndUpdate_ts_def
  by (intro leaves_open_then leaves_open_getEntity_ts leaves_open_saveEntity
        leaves_open_onEntityUpdated_ts)

lemma update_ts_leaves_supplied_transaction_open:
  assumes "transaction \<noteq> NoTransaction"
  shows "TxCommit \<notin> set (fst (update_ts m st ident data ancestors namespace transaction options))
       \<and> TxRollback \<notin> set (fst (update_ts m st ident data ancestors namespace transaction options))"
proof -
  have r: "leaves_open (onUpdateError_ts st False e)" for e
    by (simp add: onUpdateError_ts_def leaves_open_basic)
  have "leaves_open (update_ts m st ident data ancestors namespace transaction options)"
    using assms unfolding update_ts_def Let_def
    by (cases transaction)
       (auto intro!: leaves_open_catch leaves_open_then leaves_open_saveEntity
          leaves_open_onEntityUpdated_ts leaves_open_getAndUpdate_ts leaves_open_basic r)
  then show ?thesis by (simp add: leaves_open_def)
qed

text \<open>
  With no record under the key, the TypeScript \<open>update\<close> (without \<open>replace\<close>) rejects
  with the not-found error and saves nothing, provided the store answers \<open>run\<close>,
  \<open>get\<close> and, for a transaction of its own, \<open>rollback\<close>.
\<close>

lemma update_ts_not_found:
  assumes "\<not> uo_replace options" and "transaction \<noteq> NotATransaction"
    and "us_entities st (Model_key m (id_elem ident) ancestors namespace) = None"
    and "us_run_fails st = None" and "us_get_fails st = None" and "us_rollback_fails st = None"
  shows "snd (update_ts m st ident data ancestors namespace transaction options)
           = Inl (not_found_error ident)
       \<and> (\<forall>k. TxSave k \<notin> set (fst (update_ts m st ident data ancestors namespace transaction options))
              \<and> StoreSave k \<notin> set (fst (update_ts m st ident data ancestors namespace transaction options)))"
  using assms
  by (cases transaction)
     (simp_all add: update_ts_def getAndUpdate_ts_def getEntity_ts_def onUpdateError_ts_def
        then_p_def catch_p_def tx_run_def tx_get_def tx_rollback_def answer_def reject_p_def
        Let_def)


subsection \<open>The JavaScript update at concrete inputs\<close>

definition post_key :: ds_key where
  "post_key = \<lparr> key_namespace = None, key_path = [PStr ''BlogPost'', PNum 42] \<rparr>"

definition incomplete_post_key :: ds_key where
  "incomplete_post_key = \<lparr> key_namespace = None, key_path = [PStr ''BlogPost''] \<rparr>"

lemmas update_eval =
  update_js_def getAndUpdate_js_def getEntity_js_def onEntityUpdated_js_def onUpdateError_js_def
  onTransactionError_def onTransactionSuccess_def saveEntity_def entity_save_def
  entity_key_or_incomplete_def Entity_entityKey_def createKey_def ds_key_of_def
  loader_clear_def Model_parseId_def Model_key_def id_elem_def
  then_p_def catch_p_def then2_p_def resolve_p_def reject_p_def
  tx_run_def tx_get_def tx_commit_def tx_rollback_def answer_def Let_def
  blog_model_def strict_model_def empty_store_def stored_post_def no_options_def
  user_schema_def post_key_def incomplete_post_key_def

text \<open>
  C1, at a failing input of the JavaScript model. The caller passes its own transaction
  and the record exists: \<open>update\<close> reads, saves, and commits the caller's transaction.
  When the save fails validation, it rolls the caller's transaction back.
\<close>

theorem update_js_closes_supplied_transaction:
  "fst (update_js blog_model stored_post (IdNumber 42) [(''email'', JStr ''a@b.com'')]
          None None Transaction no_options)
     = [TxGet post_key, TxSave post_key, TxCommit]
   \<and> fst (update_js strict_model stored_post (IdNumber 42) [(''email'', JStr ''a@b.com'')]
          None None Transaction no_options)
     = [TxGet post_key, TxRollback]"
  by (simp add: update_eval)

text \<open>
  C2, at a failing input of the JavaScript model. The store holds no record under the
  key: the \<open>catch\<close> of \<open>getEntity\<close> returns the not-found error, \<open>saveEntity\<close> builds an
  entity from it, with no record and the incomplete key of the kind, the transaction
  saves it and commits, and the promise resolves.
\<close>

theorem update_js_not_found_saves_and_resolves:
  "update_js blog_model empty_store (IdNumber 42) [(''email'', JStr ''a@b.com'')]
      None None NoTransaction no_options
   = ([TxRun, TxGet post_key, TxSave incomplete_post_key, TxCommit], Inr incomplete_post_key)"
  by (simp add: update_eval)

end
